theory Spec2Isabelle
  imports Complex_Main "HOL-Library.Char_ord" "HOL-Library.List_Lexorder"
begin

section \<open>Exceptions\<close>

text \<open>
  The Python exceptions that the modelled code can raise. \<open>BlueskyAPIError\<close> is the only
  exception class the repository declares (src/core/bluesky_client.py); its argument is the
  message. \<open>Psycopg2Error\<close> stands for \<open>psycopg2.Error\<close> and its subclasses.
\<close>

datatype exn =
    BlueskyAPIError string
  | Psycopg2Error string
  | KeyError string
  | ValueError string
  | RecursionError

section \<open>Dates and times\<close>

text \<open>
  A timezone-aware UTC \<open>datetime\<close>: the day as a count of days since 1970-01-01 and the
  microseconds since midnight. The two conversions between day counts and civil dates are the
  usual proleptic Gregorian ones.
\<close>

record datetime =
  dt_day :: int
  dt_usec :: nat

definition days_from_civil :: "int \<Rightarrow> int \<Rightarrow> int \<Rightarrow> int" where
  "days_from_civil y m d =
     (let y' = (if m \<le> 2 then y - 1 else y);
          era = y' div 400;
          yoe = y' - era * 400;
          doy = (153 * (if m > 2 then m - 3 else m + 9) + 2) div 5 + d - 1;
          doe = yoe * 365 + yoe div 4 - yoe div 100 + doy
      in era * 146097 + doe - 719468)"

definition civil_from_days :: "int \<Rightarrow> int \<times> int \<times> int" where
  "civil_from_days z0 =
     (let z = z0 + 719468;
          era = z div 146097;
          doe = z - era * 146097;
          yoe = (doe - doe div 1460 + doe div 36524 - doe div 146096) div 365;
          y = yoe + era * 400;
          doy = doe - (365 * yoe + yoe div 4 - yoe div 100);
          mp = (5 * doy + 2) div 153;
          d = doy - (153 * mp + 2) div 5 + 1;
          m = (if mp < 10 then mp + 3 else mp - 9)
      in (if m \<le> 2 then y + 1 else y, m, d))"

text \<open>\<open>datetime(y, m, d, hh, mm, ss, tzinfo=utc)\<close>\<close>

definition mk_datetime :: "int \<Rightarrow> int \<Rightarrow> int \<Rightarrow> nat \<Rightarrow> nat \<Rightarrow> nat \<Rightarrow> datetime" where
  "mk_datetime y m d hh mm ss =
     \<lparr>dt_day = days_from_civil y m d, dt_usec = ((hh * 60 + mm) * 60 + ss) * 1000000\<rparr>"

text \<open>\<open>dt - timedelta(days=n)\<close>\<close>

definition minus_days :: "datetime \<Rightarrow> int \<Rightarrow> datetime" where
  "minus_days dt n = dt\<lparr>dt_day := dt_day dt - n\<rparr>"

text \<open>\<open>a > b\<close> on datetimes\<close>

definition dt_greater :: "datetime \<Rightarrow> datetime \<Rightarrow> bool" where
  "dt_greater a b = (dt_day a > dt_day b \<or> (dt_day a = dt_day b \<and> dt_usec a > dt_usec b))"

definition digit_char :: "int \<Rightarrow> char" where
  "digit_char n = char_of (48 + n mod 10)"

text \<open>
  \<open>str(dt)[0:10]\<close>, which is also \<open>dt.strftime('%Y-%m-%d')\<close>: the ISO date
  \<open>YYYY-MM-DD\<close> with zero padding.
\<close>

definition str_date :: "datetime \<Rightarrow> string" where
  "str_date dt =
     (case civil_from_days (dt_day dt) of (y, m, d) \<Rightarrow>
        [digit_char (y div 1000), digit_char (y div 100), digit_char (y div 10), digit_char y,
         CHR ''-'', digit_char (m div 10), digit_char m,
         CHR ''-'', digit_char (d div 10), digit_char d])"

definition is_digit :: "char \<Rightarrow> bool" where
  "is_digit c = (CHR ''0'' \<le> c \<and> c \<le> CHR ''9'')"

definition digit_val :: "char \<Rightarrow> int" where
  "digit_val c = int (of_char c) - 48"

text \<open>
  The month and day tokens that \<open>strptime\<close> accepts for \<open>%m\<close> and \<open>%d\<close>:
  \<open>1[0-2]|0[1-9]|[1-9]\<close> and \<open>3[01]|[12]\d|0[1-9]|[1-9]| [1-9]\<close>.
\<close>

definition month_token :: "string \<Rightarrow> int option" where
  "month_token s =
     (case s of
        [a] \<Rightarrow> if is_digit a \<and> a \<noteq> CHR ''0'' then Some (digit_val a) else None
      | [a, b] \<Rightarrow>
          if is_digit a \<and> is_digit b \<and> 1 \<le> 10 * digit_val a + digit_val b
             \<and> 10 * digit_val a + digit_val b \<le> 12
          then Some (10 * digit_val a + digit_val b) else None
      | _ \<Rightarrow> None)"

definition day_token :: "string \<Rightarrow> int option" where
  "day_token s =
     (case s of
        [a] \<Rightarrow> if is_digit a \<and> a \<noteq> CHR ''0'' then Some (digit_val a) else None
      | [a, b] \<Rightarrow>
          if a = CHR '' '' \<and> is_digit b \<and> b \<noteq> CHR ''0'' then Some (digit_val b)
          else if is_digit a \<and> is_digit b \<and> 1 \<le> 10 * digit_val a + digit_val b
             \<and> 10 * digit_val a + digit_val b \<le> 31
          then Some (10 * digit_val a + digit_val b) else None
      | _ \<Rightarrow> None)"

definition days_in_month :: "int \<Rightarrow> int \<Rightarrow> int" where
  "days_in_month y m =
     (if m = 2 then (if y mod 4 = 0 \<and> (y mod 100 \<noteq> 0 \<or> y mod 400 = 0) then 29 else 28)
      else if m = 4 \<or> m = 6 \<or> m = 9 \<or> m = 11 then 30 else 31)"

text \<open>
  \<open>datetime.strptime(s, '%Y-%m-%d').replace(tzinfo=timezone.utc)\<close>: four digits of year, a
  month token and a day token separated by \<open>-\<close>, covering the whole string and naming a
  date that exists; anything else raises \<open>ValueError\<close>.
\<close>

definition strptime_ymd :: "string \<Rightarrow> exn + datetime" where
  "strptime_ymd s =
     (case s of
        y1 # y2 # y3 # y4 # dash # rest \<Rightarrow>
          if is_digit y1 \<and> is_digit y2 \<and> is_digit y3 \<and> is_digit y4 \<and> dash = CHR ''-''
          then
            (let y = 1000 * digit_val y1 + 100 * digit_val y2 + 10 * digit_val y3 + digit_val y4;
                 ms = takeWhile (\<lambda>c. c \<noteq> CHR ''-'') rest;
                 ds = drop (length ms + 1) rest
             in if length ms < length rest then
                  (case month_token ms of
                     None \<Rightarrow> Inl (ValueError ''time data does not match format'')
                   | Some m \<Rightarrow>
                      (case day_token ds of
                         None \<Rightarrow> Inl (ValueError ''time data does not match format'')
                       | Some d \<Rightarrow>
                           if 1 \<le> y \<and> d \<le> days_in_month y m
                           then Inr \<lparr>dt_day = days_from_civil y m d, dt_usec = 0\<rparr>
                           else Inl (ValueError ''date out of range'')))
                else Inl (ValueError ''time data does not match format''))
          else Inl (ValueError ''time data does not match format'')
      | _ \<Rightarrow> Inl (ValueError ''time data does not match format''))"

section \<open>The remote provider (src/core/bluesky_client.py)\<close>

record UserProfile =
  did :: string
  handle :: string
  display_name :: "string option"
  avatar :: "string option"
  followers_count :: int
  following_count :: int
  posts_count :: int

text \<open>
  One element of the \<open>profiles\<close> array of a \<open>getProfiles\<close> answer, as the JSON object it
  is: every key may be missing (\<open>None\<close>).
\<close>

record profile_data =
  j_did :: "string option"
  j_handle :: "string option"
  j_displayName :: "string option"
  j_avatar :: "string option"
  j_followersCount :: "int option"
  j_followsCount :: "int option"
  j_postsCount :: "int option"

text \<open>
  A post of the author feed (\<open>entry['post']\<close>) with the fields the services read:
  \<open>uri\<close>, \<open>author.did\<close>, the four counters and \<open>record.createdAt\<close>.
\<close>

record api_post =
  a_uri :: string
  a_author_did :: string
  likeCount :: int
  replyCount :: int
  quoteCount :: int
  repostCount :: int
  a_createdAt :: string

text \<open>
  An entry of the \<open>feed\<close> array: either it carries \<open>post.author.did\<close> (and then the other
  fields of the post), or reading \<open>entry['post']['author']['did']\<close> raises.
\<close>

datatype feed_entry = Entry api_post | Malformed

text \<open>The JSON object of an answer: the keys \<open>profiles\<close>, \<open>feed\<close> and \<open>cursor\<close>, each optional.\<close>

record response =
  r_profiles :: "profile_data list option"
  r_feed :: "feed_entry list option"
  r_cursor :: "string option"

text \<open>
  The environment of the client: its base URL, what \<open>requests.get(url)\<close> followed by
  \<open>raise_for_status()\<close> and \<open>json()\<close> gives for a URL (\<open>Inl\<close> the message of the
  \<open>RequestException\<close>), and the number of nested calls the interpreter still allows
  (Python's recursion limit).
\<close>

record env =
  base_url :: string
  requests_get :: "string \<Rightarrow> string + response"
  recursion_limit :: nat

definition call_endpoint :: "env \<Rightarrow> string \<Rightarrow> string \<Rightarrow> exn + response" where
  "call_endpoint e path params =
     (let url = base_url e @ ''/xrpc/'' @ path;
          url' = (if params \<noteq> [] then url @ ''?'' @ params else url)
      in case requests_get e url' of
           Inl msg \<Rightarrow> Inl (BlueskyAPIError (''Failed to call '' @ path @ '': '' @ msg))
         | Inr r \<Rightarrow> Inr r)"

text \<open>\<open>sep.join(xs)\<close>\<close>

fun str_join :: "string \<Rightarrow> string list \<Rightarrow> string" where
  "str_join sep [] = []"
| "str_join sep [x] = x"
| "str_join sep (x # y # ys) = x @ sep @ str_join sep (y # ys)"

text \<open>The loop of \<open>get_profiles\<close> that builds a \<open>UserProfile\<close> from each JSON object.\<close>

fun build_profiles :: "profile_data list \<Rightarrow> exn + UserProfile list" where
  "build_profiles [] = Inr []"
| "build_profiles (pd # rest) =
     (case j_did pd of
        None \<Rightarrow> Inl (KeyError ''did'')
      | Some d \<Rightarrow>
         (case j_handle pd of
            None \<Rightarrow> Inl (KeyError ''handle'')
          | Some h \<Rightarrow>
             (case build_profiles rest of
                Inl e \<Rightarrow> Inl e
              | Inr ps \<Rightarrow>
                  Inr (\<lparr>did = d, handle = h,
                        display_name = j_displayName pd,
                        avatar = j_avatar pd,
                        followers_count = (case j_followersCount pd of None \<Rightarrow> 0 | Some n \<Rightarrow> n),
                        following_count = (case j_followsCount pd of None \<Rightarrow> 0 | Some n \<Rightarrow> n),
                        posts_count = (case j_postsCount pd of None \<Rightarrow> 0 | Some n \<Rightarrow> n)\<rparr>
                       # ps))))"

definition get_profiles :: "env \<Rightarrow> string list \<Rightarrow> exn + UserProfile list" where
  "get_profiles e dids =
     (if dids = [] then Inr []
      else
        (let params = str_join ''&'' (map (\<lambda>d. ''actors='' @ d) dids)
         in case call_endpoint e ''app.bsky.actor.getProfiles'' params of
              Inl err \<Rightarrow> Inl err
            | Inr resp \<Rightarrow>
                build_profiles (case r_profiles resp of None \<Rightarrow> [] | Some ps \<Rightarrow> ps)))"

definition get_single_profile :: "env \<Rightarrow> string \<Rightarrow> exn + UserProfile" where
  "get_single_profile e actor =
     (case get_profiles e [actor] of
        Inl err \<Rightarrow> Inl err
      | Inr [] \<Rightarrow> Inl (BlueskyAPIError (''No profile found for '' @ actor))
      | Inr (p # _) \<Rightarrow> Inr p)"

section \<open>The relational store (src/services/database_service.py)\<close>

text \<open>
  The tables, with the columns the statements of the services name. The repository holds no
  schema; the column lists are those of its \<open>INSERT\<close>, \<open>UPDATE\<close> and \<open>SELECT\<close>
  statements. A \<open>users\<close> row is read by position: 0 is \<open>did\<close>, 1 \<open>handle\<close>,
  2 \<open>displayName\<close>, 3 \<open>avatar\<close> and 7 the skip flag.
\<close>

record user_row =
  u_did :: string
  u_handle :: string
  u_displayName :: "string option"
  u_avatar :: "string option"
  u_skip_user :: bool

record post_row =
  uri :: string
  p_did :: string
  likes :: int
  replies :: int
  quotes :: int
  reposts :: int
  createdAt :: string
  updatedAt :: datetime

record snapshot_row =
  s_uuid :: nat
  s_followers :: int
  s_following :: int
  s_posts :: int
  s_date :: string
  s_did :: string
  s_likes :: int
  s_replies :: int
  s_quotes :: int
  s_reposts :: int

record view_row =
  v_did :: string
  v_date :: int

record log_row =
  l_status :: string
  l_time_started :: datetime
  l_time_completed :: datetime
  l_duration :: "real option"
  l_total_users :: int
  l_id :: int

record SnapshotData =
  sd_did :: string
  sd_handle :: string
  sd_date :: string
  sd_followers :: int
  sd_following :: int
  sd_posts :: int
  sd_likes :: int
  sd_replies :: int
  sd_quotes :: int
  sd_reposts :: int

text \<open>
  The state of the store and of its server: the tables, the outcome of each coming
  \<open>psycopg2.connect\<close> (\<open>True\<close> when it connects; every attempt after the listed ones
  connects) and the source of \<open>gen_random_uuid()\<close>, which never repeats a value.
\<close>

record world =
  users :: "user_row list"
  posts :: "post_row list"
  snapshots :: "snapshot_row list"
  snapshot_logs :: "log_row list"
  views :: "view_row list"
  connect_outcomes :: "bool list"
  uuid_counter :: nat

text \<open>
  \<open>get_connection\<close> up to its \<open>yield\<close>: \<open>psycopg2.connect\<close> either connects or raises
  \<open>psycopg2.Error\<close>, which the context manager logs and raises again.
\<close>

definition get_connection :: "world \<Rightarrow> (exn + unit) \<times> world" where
  "get_connection w =
     (case connect_outcomes w of
        [] \<Rightarrow> (Inr (), w)
      | ok # rest \<Rightarrow>
          (if ok then Inr () else Inl (Psycopg2Error ''could not connect to server''),
           w\<lparr>connect_outcomes := rest\<rparr>))"

subsection \<open>Engagement totals\<close>

record engagement =
  e_likes :: int
  e_replies :: int
  e_quotes :: int
  e_reposts :: int

text \<open>SQL \<open>SUM\<close> over a group: \<open>NULL\<close> when it has no input.\<close>

definition sql_sum :: "int list \<Rightarrow> int option" where
  "sql_sum xs = (if xs = [] then None else Some (sum_list xs))"

text \<open>
  \<open>SELECT SUM(likes), SUM(replies), SUM(quotes), SUM(reposts) FROM posts WHERE did = %s
  GROUP BY did LIMIT 1\<close> followed by \<open>fetchone()\<close>: no row when no post matches.
\<close>

definition select_engagement ::
  "post_row list \<Rightarrow> string \<Rightarrow> (int option \<times> int option \<times> int option \<times> int option) option" where
  "select_engagement tbl d =
     (let rows = filter (\<lambda>p. p_did p = d) tbl
      in if rows = [] then None
         else Some (sql_sum (map likes rows), sql_sum (map replies rows),
                    sql_sum (map quotes rows), sql_sum (map reposts rows)))"

text \<open>\<open>x or 0\<close> on a column value\<close>

definition or_zero :: "int option \<Rightarrow> int" where
  "or_zero x = (case x of None \<Rightarrow> 0 | Some n \<Rightarrow> (if n = 0 then 0 else n))"

definition get_engagement_totals :: "world \<Rightarrow> string \<Rightarrow> (exn + engagement) \<times> world" where
  "get_engagement_totals w d =
     (case get_connection w of
        (Inl e, w') \<Rightarrow> (Inl e, w')
      | (Inr _, w') \<Rightarrow>
          (case select_engagement (posts w') d of
             Some (l, r, q, p) \<Rightarrow>
               (Inr \<lparr>e_likes = or_zero l, e_replies = or_zero r,
                     e_quotes = or_zero q, e_reposts = or_zero p\<rparr>, w')
           | None \<Rightarrow>
               (Inr \<lparr>e_likes = 0, e_replies = 0, e_quotes = 0, e_reposts = 0\<rparr>, w')))"

subsection \<open>Snapshot upsert\<close>

definition same_key :: "SnapshotData \<Rightarrow> snapshot_row \<Rightarrow> bool" where
  "same_key s r = (s_did r = sd_did s \<and> s_date r = sd_date s)"

text \<open>
  \<open>INSERT INTO snapshots (uuid, followers, following, posts, date, did, likes, replies, quotes,
  reposts) VALUES (gen_random_uuid(), ...) ON CONFLICT (did, date) DO UPDATE SET followers =
  EXCLUDED.followers, ...\<close>: a row with the key of the new one takes its seven counters and
  keeps its \<open>uuid\<close>; without such a row the new one is added.
\<close>

definition insert_snapshot_on_conflict ::
  "snapshot_row list \<Rightarrow> nat \<Rightarrow> SnapshotData \<Rightarrow> snapshot_row list" where
  "insert_snapshot_on_conflict tbl new_uuid s =
     (if \<exists>r \<in> set tbl. same_key s r
      then map (\<lambda>r. if same_key s r
                     then r\<lparr>s_followers := sd_followers s, s_following := sd_following s,
                            s_posts := sd_posts s, s_likes := sd_likes s,
                            s_replies := sd_replies s, s_quotes := sd_quotes s,
                            s_reposts := sd_reposts s\<rparr>
                     else r) tbl
      else tbl @ [\<lparr>s_uuid = new_uuid, s_followers = sd_followers s,
                   s_following = sd_following s, s_posts = sd_posts s, s_date = sd_date s,
                   s_did = sd_did s, s_likes = sd_likes s, s_replies = sd_replies s,
                   s_quotes = sd_quotes s, s_reposts = sd_reposts s\<rparr>])"

definition upsert_snapshot :: "world \<Rightarrow> SnapshotData \<Rightarrow> (exn + unit) \<times> world" where
  "upsert_snapshot w s =
     (case get_connection w of
        (Inl e, w') \<Rightarrow> (Inl e, w')
      | (Inr _, w') \<Rightarrow>
          (Inr (), w'\<lparr>snapshots := insert_snapshot_on_conflict (snapshots w') (uuid_counter w') s,
                      uuid_counter := Suc (uuid_counter w')\<rparr>))"

text \<open>The key of the unique constraint that \<open>ON CONFLICT (did, date)\<close> names.\<close>

definition snapshot_key :: "snapshot_row \<Rightarrow> string \<times> string" where
  "snapshot_key r = (s_did r, s_date r)"

section \<open>Example states\<close>

definition w_example :: world where
  "w_example = \<lparr>users = [],
     posts = [\<lparr>uri = ''at://a/1'', p_did = ''did:abc'', likes = 10, replies = 1, quotes = 0,
               reposts = 2, createdAt = ''2024-01-10T10:00:00.000Z'',
               updatedAt = \<lparr>dt_day = 19737, dt_usec = 0\<rparr>\<rparr>,
              \<lparr>uri = ''at://a/2'', p_did = ''did:abc'', likes = 5, replies = 0, quotes = 3,
               reposts = 0, createdAt = ''2024-01-11T10:00:00.000Z'',
               updatedAt = \<lparr>dt_day = 19737, dt_usec = 0\<rparr>\<rparr>,
              \<lparr>uri = ''at://b/1'', p_did = ''did:xyz'', likes = 7, replies = 7, quotes = 7,
               reposts = 7, createdAt = ''2024-01-11T10:00:00.000Z'',
               updatedAt = \<lparr>dt_day = 19737, dt_usec = 0\<rparr>\<rparr>],
     snapshots = [], snapshot_logs = [], views = [], connect_outcomes = [], uuid_counter = 0\<rparr>"

text \<open>The Python class of an exception value.\<close>

definition exn_class :: "exn \<Rightarrow> string" where
  "exn_class e =
     (case e of
        BlueskyAPIError _ \<Rightarrow> ''BlueskyAPIError''
      | Psycopg2Error _ \<Rightarrow> ''psycopg2.Error''
      | KeyError _ \<Rightarrow> ''KeyError''
      | ValueError _ \<Rightarrow> ''ValueError''
      | RecursionError \<Rightarrow> ''RecursionError'')"

definition env_no_match :: env where
  "env_no_match = \<lparr>base_url = ''https://public.api.bsky.app'',
     requests_get = (\<lambda>url. Inr \<lparr>r_profiles = Some [], r_feed = None, r_cursor = None\<rparr>),
     recursion_limit = 1000\<rparr>"

definition env_down :: env where
  "env_down = \<lparr>base_url = ''https://public.api.bsky.app'',
     requests_get = (\<lambda>url. Inl ''connection refused''),
     recursion_limit = 1000\<rparr>"

definition bsky_profile :: profile_data where
  "bsky_profile = \<lparr>j_did = Some ''did:plc:z72i7hdynmk6r22z27h6tvur'', j_handle = Some ''bsky.app'',
     j_displayName = Some ''Bluesky'', j_avatar = None, j_followersCount = Some 100,
     j_followsCount = Some 50, j_postsCount = None\<rparr>"

definition env_one_match :: env where
  "env_one_match = \<lparr>base_url = ''https://public.api.bsky.app'',
     requests_get = (\<lambda>url. 
        if url = ''https://public.api.bsky.app/xrpc/app.bsky.actor.getProfiles?actors=bsky.app''
        then Inr \<lparr>r_profiles = Some [bsky_profile], r_feed = None, r_cursor = None\<rparr>
        else Inl ''404 Client Error''),
     recursion_limit = 1000\<rparr>"

section \<open>The post synchronizer (src/services/post_service.py)\<close>

text \<open>
  The \<open>for\<close> loop of \<open>get_posts_for_actor\<close> over \<open>response['feed']\<close>: a post whose author
  is the actor is appended to \<open>posts\<close>. The result is the value of \<open>posts\<close> when the loop
  ends and the exception that ended it, if one did.
\<close>

fun collect_actor_posts ::
  "string \<Rightarrow> feed_entry list \<Rightarrow> api_post list \<Rightarrow> api_post list \<times> exn option" where
  "collect_actor_posts actor [] ps = (ps, None)"
| "collect_actor_posts actor (Malformed # es) ps = (ps, Some (KeyError ''post''))"
| "collect_actor_posts actor (Entry p # es) ps =
     (if a_author_did p = actor then collect_actor_posts actor es (ps @ [p])
      else collect_actor_posts actor es ps)"

text \<open>
  The \<open>try\<close> block of \<open>get_posts_for_actor\<close>. \<open>self_call c ps\<close> is the nested call
  \<open>self.get_posts_for_actor(actor, c, ps, fetch_all)\<close>. The result is the value of the local
  variable \<open>posts\<close> when the block is left, and the exception that left it (\<open>None\<close> when it
  reaches \<open>return posts\<close>).
\<close>

definition get_posts_try ::
  "(string \<Rightarrow> api_post list \<Rightarrow> exn + api_post list) \<Rightarrow> env \<Rightarrow> datetime \<Rightarrow> string \<Rightarrow> string \<Rightarrow>
   api_post list \<Rightarrow> bool \<Rightarrow> api_post list \<times> exn option" where
  "get_posts_try self_call e now actor cursor ps fetch_all =
     (case call_endpoint e ''app.bsky.feed.getAuthorFeed''
             (''actor='' @ actor @ ''&cursor='' @ cursor @ ''&limit=100'') of
        Inl err \<Rightarrow> (ps, Some err)
      | Inr resp \<Rightarrow>
         (case r_feed resp of
            None \<Rightarrow> (ps, Some (KeyError ''feed''))
          | Some entries \<Rightarrow>
             (case collect_actor_posts actor entries ps of
                (ps', Some err) \<Rightarrow> (ps', Some err)
              | (ps', None) \<Rightarrow>
                 (case r_cursor resp of
                    None \<Rightarrow> (ps', None)
                  | Some c \<Rightarrow>
                     if length ps' < 10000 then
                       (if fetch_all then
                          (case self_call c ps' of
                             Inl err \<Rightarrow> (ps', Some err)
                           | Inr ps'' \<Rightarrow> (ps'', None))
                        else
                          (let time_range = minus_days now 7
                           in case strptime_ymd (take 10 c) of
                                Inl err \<Rightarrow> (ps', Some err)
                              | Inr cursor_datetime \<Rightarrow>
                                  if dt_greater cursor_datetime time_range then
                                    (case self_call c ps' of
                                       Inl err \<Rightarrow> (ps', Some err)
                                     | Inr ps'' \<Rightarrow> (ps'', None))
                                  else (ps', None)))
                     else (ps', None)))))"

text \<open>
  \<open>get_posts_for_actor\<close>: the \<open>try\<close> block, then \<open>return posts\<close> either at its end or in the
  \<open>except Exception\<close> handler. The first argument is the number of nested calls the
  interpreter still allows: at 0 the nested call raises \<open>RecursionError\<close>.
\<close>

fun get_posts_for_actor ::
  "nat \<Rightarrow> env \<Rightarrow> datetime \<Rightarrow> string \<Rightarrow> string \<Rightarrow> api_post list \<Rightarrow> bool \<Rightarrow> exn + api_post list" where
  "get_posts_for_actor 0 e now actor cursor ps fetch_all =
     (case get_posts_try (\<lambda>c ps'. Inl RecursionError) e now actor cursor ps fetch_all of
        (ps', None) \<Rightarrow> Inr ps'
      | (ps', Some err) \<Rightarrow> Inr ps')"
| "get_posts_for_actor (Suc n) e now actor cursor ps fetch_all =
     (case get_posts_try (\<lambda>c ps'. get_posts_for_actor n e now actor c ps' fetch_all)
             e now actor cursor ps fetch_all of
        (ps', None) \<Rightarrow> Inr ps'
      | (ps', Some err) \<Rightarrow> Inr ps')"

text \<open>\<open>posts.drop_duplicates(subset=['uri'])\<close>: the first row of each \<open>uri\<close> stays.\<close>

fun drop_duplicates_uri :: "api_post list \<Rightarrow> api_post list" where
  "drop_duplicates_uri [] = []"
| "drop_duplicates_uri (p # ps) =
     p # drop_duplicates_uri (filter (\<lambda>q. a_uri q \<noteq> a_uri p) ps)"

text \<open>
  An \<open>UPDATE posts SET likes = %s, replies = %s, quotes = %s, reposts = %s, "updatedAt" = %s
  WHERE uri = %s\<close> with its parameters.
\<close>

record update_stmt =
  set_likes :: int
  set_replies :: int
  set_quotes :: int
  set_reposts :: int
  set_updatedAt :: datetime
  where_uri :: string

text \<open>
  The merge loop of \<open>update_posts_for_actor\<close> over the fetched rows: the \<open>UPDATE\<close>
  statements it executes, in order, and the list \<open>posts_to_insert\<close> it builds.
  \<open>cutoff\<close> is \<open>str(time_range)[0:10]\<close> and \<open>tracked\<close> the rows of \<open>tracked_posts_df\<close>.
\<close>

fun merge_posts ::
  "bool \<Rightarrow> string \<Rightarrow> datetime \<Rightarrow> post_row list \<Rightarrow> api_post list \<Rightarrow>
   update_stmt list \<times> post_row list" where
  "merge_posts update_all cutoff now tracked [] = ([], [])"
| "merge_posts update_all cutoff now tracked (row # rest) =
     (case merge_posts update_all cutoff now tracked rest of (updates, posts_to_insert) \<Rightarrow>
        if \<not> update_all \<and> a_createdAt row \<le> cutoff then (updates, posts_to_insert)
        else
          (case filter (\<lambda>t. uri t = a_uri row) tracked of
             existing_row # _ \<Rightarrow>
               if likes existing_row \<noteq> likeCount row \<or> replies existing_row \<noteq> replyCount row \<or>
                  quotes existing_row \<noteq> quoteCount row \<or> reposts existing_row \<noteq> repostCount row
               then (\<lparr>set_likes = likeCount row, set_replies = replyCount row,
                      set_quotes = quoteCount row, set_reposts = repostCount row,
                      set_updatedAt = now, where_uri = a_uri row\<rparr> # updates, posts_to_insert)
               else (updates, posts_to_insert)
           | [] \<Rightarrow>
               (updates,
                \<lparr>uri = a_uri row, p_did = a_author_did row, likes = likeCount row,
                 replies = replyCount row, quotes = quoteCount row, reposts = repostCount row,
                 createdAt = a_createdAt row, updatedAt = now\<rparr> # posts_to_insert)))"

text \<open>The effect of one \<open>UPDATE\<close> statement on the table.\<close>

definition exec_update :: "update_stmt \<Rightarrow> post_row list \<Rightarrow> post_row list" where
  "exec_update u tbl =
     map (\<lambda>r. if uri r = where_uri u
               then r\<lparr>likes := set_likes u, replies := set_replies u, quotes := set_quotes u,
                      reposts := set_reposts u, updatedAt := set_updatedAt u\<rparr>
               else r) tbl"

text \<open>
  Modelled from the spec: the schema of \<open>posts\<close> is not part of the sources; the spec gives
  the table a unique key on the URI. An \<open>INSERT\<close> of a URI that the table holds raises
  \<open>psycopg2.Error\<close>; the others add their row.
\<close>

fun exec_inserts :: "post_row list \<Rightarrow> post_row list \<Rightarrow> exn + post_row list" where
  "exec_inserts tbl [] = Inr tbl"
| "exec_inserts tbl (r # rs) =
     (if uri r \<in> set (map uri tbl)
      then Inl (Psycopg2Error ''duplicate key value violates unique constraint'')
      else exec_inserts (tbl @ [r]) rs)"

text \<open>
  \<open>update_posts_for_actor\<close>. The statements run in one transaction: an exception leaves the
  \<open>with\<close> block before \<open>conn.commit()\<close>, the connection is rolled back or closed, and the table
  is as before; the exception is raised again to the caller. The column \<open>createdAt\<close> holds the
  string the provider gave, and the store compares it with the cutoff as text.
\<close>

definition update_posts_for_actor ::
  "env \<Rightarrow> datetime \<Rightarrow> world \<Rightarrow> string \<Rightarrow> bool \<Rightarrow> (exn + unit) \<times> world" where
  "update_posts_for_actor e now w d update_all =
     (case get_connection w of
        (Inl err, w') \<Rightarrow> (Inl err, w')
      | (Inr _, w') \<Rightarrow>
         (let num_posts = length (filter (\<lambda>p. p_did p = d) (posts w'));
              fetched = (if num_posts = 0
                         then get_posts_for_actor (recursion_limit e) e now d [] [] True
                         else get_posts_for_actor (recursion_limit e) e now d [] [] update_all)
          in case fetched of
               Inl err \<Rightarrow> (Inl err, w')
             | Inr fetched_posts \<Rightarrow>
                 if fetched_posts = [] then (Inr (), w')
                 else
                   (let deduped = drop_duplicates_uri fetched_posts;
                        time_range = minus_days now 7;
                        cutoff = str_date time_range;
                        tracked = (if update_all
                                   then filter (\<lambda>p. p_did p = d) (posts w')
                                   else filter (\<lambda>p. p_did p = d \<and> createdAt p > cutoff) (posts w'))
                    in case merge_posts update_all cutoff now tracked deduped of
                         (updates, posts_to_insert) \<Rightarrow>
                           (case exec_inserts (fold exec_update updates (posts w')) posts_to_insert of
                              Inl err \<Rightarrow> (Inl err, w')
                            | Inr tbl \<Rightarrow> (Inr (), w'\<lparr>posts := tbl\<rparr>)))))"

section \<open>The snapshot orchestrator (src/services/snapshot_service.py)\<close>

text \<open>\<open>SELECT * FROM users WHERE did = %s\<close> and \<open>fetchone()\<close>\<close>

definition get_user_by_did :: "world \<Rightarrow> string \<Rightarrow> (exn + user_row option) \<times> world" where
  "get_user_by_did w d =
     (case get_connection w of
        (Inl err, w') \<Rightarrow> (Inl err, w')
      | (Inr _, w') \<Rightarrow>
          (Inr (case filter (\<lambda>u. u_did u = d) (users w') of [] \<Rightarrow> None | u # _ \<Rightarrow> Some u), w'))"

text \<open>\<open>UPDATE users SET handle = %s, "displayName" = %s, avatar = %s WHERE did = %s\<close>\<close>

definition update_user_profile :: "world \<Rightarrow> UserProfile \<Rightarrow> (exn + unit) \<times> world" where
  "update_user_profile w profile =
     (case get_connection w of
        (Inl err, w') \<Rightarrow> (Inl err, w')
      | (Inr _, w') \<Rightarrow>
          (Inr (), w'\<lparr>users := map (\<lambda>u. if u_did u = did profile
                                         then u\<lparr>u_handle := handle profile,
                                                u_displayName := display_name profile,
                                                u_avatar := avatar profile\<rparr>
                                         else u) (users w')\<rparr>))"

definition should_update_user :: "UserProfile \<Rightarrow> user_row \<Rightarrow> bool" where
  "should_update_user profile user_data =
     (handle profile \<noteq> u_handle user_data \<or>
      display_name profile \<noteq> u_displayName user_data \<or>
      avatar profile \<noteq> u_avatar user_data)"

text \<open>The \<open>try\<close> block of \<open>process_user_profile\<close>.\<close>

definition process_user_profile_try ::
  "env \<Rightarrow> datetime \<Rightarrow> world \<Rightarrow> UserProfile \<Rightarrow> string \<Rightarrow> (exn + SnapshotData option) \<times> world" where
  "process_user_profile_try e now w profile curr_date =
     (case get_user_by_did w (did profile) of
        (Inl err, w1) \<Rightarrow> (Inl err, w1)
      | (Inr None, w1) \<Rightarrow> (Inr None, w1)
      | (Inr (Some user_data), w1) \<Rightarrow>
          if u_skip_user user_data then (Inr None, w1)
          else
            (case (if should_update_user profile user_data
                   then update_user_profile w1 profile else (Inr (), w1)) of
               (Inl err, w2) \<Rightarrow> (Inl err, w2)
             | (Inr _, w2) \<Rightarrow>
                (case update_posts_for_actor e now w2 (did profile) False of
                   (Inl err, w3) \<Rightarrow> (Inl err, w3)
                 | (Inr _, w3) \<Rightarrow>
                    (case get_engagement_totals w3 (did profile) of
                       (Inl err, w4) \<Rightarrow> (Inl err, w4)
                     | (Inr engagement, w4) \<Rightarrow>
                        (let snapshot =
                               \<lparr>sd_did = did profile, sd_handle = handle profile,
                                sd_date = curr_date,
                                sd_followers = followers_count profile,
                                sd_following = following_count profile,
                                sd_posts = posts_count profile,
                                sd_likes = e_likes engagement,
                                sd_replies = e_replies engagement,
                                sd_quotes = e_quotes engagement,
                                sd_reposts = e_reposts engagement\<rparr>
                         in case upsert_snapshot w4 snapshot of
                              (Inl err, w5) \<Rightarrow> (Inl err, w5)
                            | (Inr _, w5) \<Rightarrow> (Inr (Some snapshot), w5))))))"

text \<open>
  \<open>process_user_profile\<close>: the \<open>try\<close> block, and \<open>return None\<close> in the
  \<open>except Exception\<close> handler.
\<close>

definition process_user_profile ::
  "env \<Rightarrow> datetime \<Rightarrow> world \<Rightarrow> UserProfile \<Rightarrow> string \<Rightarrow> (exn + SnapshotData option) \<times> world" where
  "process_user_profile e now w profile curr_date =
     (case process_user_profile_try e now w profile curr_date of
        (Inl err, w') \<Rightarrow> (Inr None, w')
      | (Inr result, w') \<Rightarrow> (Inr result, w'))"

text \<open>\<open>range(0, n, step)\<close> for a positive step\<close>

definition range_step :: "nat \<Rightarrow> nat \<Rightarrow> nat list" where
  "range_step n step = map (\<lambda>j. j * step) [0 ..< (n + step - 1) div step]"

definition chunk_users :: "'a list \<Rightarrow> nat \<Rightarrow> 'a list list" where
  "chunk_users us chunk_size =
     map (\<lambda>i. take chunk_size (drop i us)) (range_step (length us) chunk_size)"

text \<open>
  \<open>get_active_users\<close>: every row of \<open>users\<close>, or the distinct users with a row of
  \<open>views\<close> dated within the last seven days, ordered by handle.
\<close>

definition get_active_users ::
  "datetime \<Rightarrow> world \<Rightarrow> bool \<Rightarrow> (exn + (string \<times> string) list) \<times> world" where
  "get_active_users now w use_simple_query =
     (case get_connection w of
        (Inl err, w') \<Rightarrow> (Inl err, w')
      | (Inr _, w') \<Rightarrow>
          (Inr (if use_simple_query then map (\<lambda>u. (u_did u, u_handle u)) (users w')
                else sort_key snd (remdups
                       (map (\<lambda>u. (u_did u, u_handle u))
                          (filter (\<lambda>u. \<exists>v \<in> set (views w').
                                          v_did v = u_did u \<and> v_date v \<ge> dt_day now - 7)
                             (users w'))))),
           w'))"

text \<open>
  The loop of \<open>create_snapshots_batch\<close> over the chunks: the profiles of a chunk are added
  to \<open>all_profiles\<close>; a chunk whose \<open>get_profiles\<close> raises is logged and skipped.
\<close>

fun fetch_chunks :: "env \<Rightarrow> (string \<times> string) list list \<Rightarrow> UserProfile list" where
  "fetch_chunks e [] = []"
| "fetch_chunks e (chunk # rest) =
     (case get_profiles e (map fst chunk) of
        Inl err \<Rightarrow> fetch_chunks e rest
      | Inr profiles \<Rightarrow> profiles @ fetch_chunks e rest)"

text \<open>
  The tasks of the thread pool and the loop over their results. The tasks are run one after
  the other, in the order of \<open>all_profiles\<close>; a task that returns a snapshot is counted, a task
  that returns \<open>None\<close> or whose \<open>future.result()\<close> raises is not.
\<close>

fun run_tasks ::
  "env \<Rightarrow> datetime \<Rightarrow> world \<Rightarrow> UserProfile list \<Rightarrow> string \<Rightarrow> int \<times> world" where
  "run_tasks e now w [] curr_date = (0, w)"
| "run_tasks e now w (profile # rest) curr_date =
     (case process_user_profile e now w profile curr_date of
        (Inl err, w1) \<Rightarrow> run_tasks e now w1 rest curr_date
      | (Inr None, w1) \<Rightarrow> run_tasks e now w1 rest curr_date
      | (Inr (Some result), w1) \<Rightarrow>
          (case run_tasks e now w1 rest curr_date of
             (processed_count, w2) \<Rightarrow> (processed_count + 1, w2)))"

definition create_snapshots_batch ::
  "env \<Rightarrow> datetime \<Rightarrow> world \<Rightarrow> bool \<Rightarrow> (exn + int) \<times> world" where
  "create_snapshots_batch e now w use_simple_query =
     (let curr_date = str_date now
      in case get_active_users now w use_simple_query of
           (Inl err, w1) \<Rightarrow> (Inl err, w1)
         | (Inr us, w1) \<Rightarrow>
             if us = [] then (Inr 0, w1)
             else
               (let user_chunks = chunk_users us 25;
                    all_profiles = fetch_chunks e user_chunks
                in case run_tasks e now w1 all_profiles curr_date of
                     (processed_count, w2) \<Rightarrow> (Inr processed_count, w2)))"

section \<open>The run and its log (src/scripts/run\_snapshots.py)\<close>

text \<open>
  \<open>create_snapshot_log\<close>: the new id is \<open>COUNT(*) + 1\<close>; the row is inserted with status
  \<open>in_progress\<close>, both times set to now, no duration and zero users.
\<close>

definition create_snapshot_log :: "datetime \<Rightarrow> world \<Rightarrow> (exn + int) \<times> world" where
  "create_snapshot_log now w =
     (case get_connection w of
        (Inl err, w') \<Rightarrow> (Inl err, w')
      | (Inr _, w') \<Rightarrow>
          (let log_id = int (length (snapshot_logs w')) + 1
           in (Inr log_id,
               w'\<lparr>snapshot_logs := snapshot_logs w' @
                     [\<lparr>l_status = ''in_progress'', l_time_started = now,
                       l_time_completed = now, l_duration = None, l_total_users = 0,
                       l_id = log_id\<rparr>]\<rparr>)))"

text \<open>
  \<open>UPDATE snapshot_logs SET status = 'completed', time_completed = %s, duration = %s,
  total_users = %s WHERE id = %s\<close>
\<close>

definition update_snapshot_log ::
  "datetime \<Rightarrow> world \<Rightarrow> int \<Rightarrow> real \<Rightarrow> int \<Rightarrow> (exn + unit) \<times> world" where
  "update_snapshot_log now w log_id duration total_users =
     (case get_connection w of
        (Inl err, w') \<Rightarrow> (Inl err, w')
      | (Inr _, w') \<Rightarrow>
          (Inr (), w'\<lparr>snapshot_logs :=
                        map (\<lambda>l. if l_id l = log_id
                                  then l\<lparr>l_status := ''completed'', l_time_completed := now,
                                         l_duration := Some duration,
                                         l_total_users := total_users\<rparr>
                                  else l) (snapshot_logs w')\<rparr>))"

text \<open>
  \<open>run_snapshot_collection\<close>; \<open>start_time\<close> and \<open>end_time\<close> are the two readings of
  \<open>time.time()\<close>. An exception of the log or of the batch is logged and raised again.
\<close>

definition run_snapshot_collection ::
  "env \<Rightarrow> datetime \<Rightarrow> real \<Rightarrow> real \<Rightarrow> world \<Rightarrow> bool \<Rightarrow> (exn + unit) \<times> world" where
  "run_snapshot_collection e now start_time end_time w use_simple_query =
     (case create_snapshot_log now w of
        (Inl err, w1) \<Rightarrow> (Inl err, w1)
      | (Inr log_id, w1) \<Rightarrow>
          (case create_snapshots_batch e now w1 use_simple_query of
             (Inl err, w2) \<Rightarrow> (Inl err, w2)
           | (Inr total_users_processed, w2) \<Rightarrow>
               (let duration = end_time - start_time
                in update_snapshot_log now w2 log_id duration total_users_processed)))"

text \<open>\<open>ps'\<close> is \<open>ps\<close> followed by posts of the actor.\<close>

definition extends_by_actor :: "string \<Rightarrow> api_post list \<Rightarrow> api_post list \<Rightarrow> bool" where
  "extends_by_actor actor ps ps' =
     (\<exists>ext. ps' = ps @ ext \<and> (\<forall>p \<in> set ext. a_author_did p = actor))"

definition now0 :: datetime where
  "now0 = mk_datetime 2024 1 15 15 0 0"

definition post_recent :: api_post where
  "post_recent = \<lparr>a_uri = ''at://did:abc/app.bsky.feed.post/1'', a_author_did = ''did:abc'',
     likeCount = 10, replyCount = 1, quoteCount = 0, repostCount = 2,
     a_createdAt = ''2024-01-14T09:00:00.000Z''\<rparr>"

definition post_boundary :: api_post where
  "post_boundary = \<lparr>a_uri = ''at://did:abc/app.bsky.feed.post/2'', a_author_did = ''did:abc'',
     likeCount = 4, replyCount = 0, quoteCount = 0, repostCount = 1,
     a_createdAt = ''2024-01-08T10:00:00.000Z''\<rparr>"

definition post_old :: api_post where
  "post_old = \<lparr>a_uri = ''at://did:abc/app.bsky.feed.post/3'', a_author_did = ''did:abc'',
     likeCount = 7, replyCount = 3, quoteCount = 1, repostCount = 0,
     a_createdAt = ''2023-06-01T10:00:00.000Z''\<rparr>"

definition repost_other :: api_post where
  "repost_other = \<lparr>a_uri = ''at://did:xyz/app.bsky.feed.post/9'', a_author_did = ''did:xyz'',
     likeCount = 100, replyCount = 30, quoteCount = 10, repostCount = 50,
     a_createdAt = ''2024-01-13T10:00:00.000Z''\<rparr>"

text \<open>A provider whose first feed page has a next-page cursor and whose second call fails.\<close>

definition env_second_page_fails :: env where
  "env_second_page_fails = \<lparr>base_url = ''https://public.api.bsky.app'',
     requests_get = (\<lambda>url.
        if url = ''https://public.api.bsky.app/xrpc/app.bsky.feed.getAuthorFeed?actor=did:abc&cursor=&limit=100''
        then Inr \<lparr>r_profiles = None,
                  r_feed = Some [Entry post_recent, Entry repost_other],
                  r_cursor = Some ''2024-01-13T10:00:00.000Z''\<rparr>
        else Inl ''502 Server Error''),
     recursion_limit = 1000\<rparr>"

subsection \<open>Notions for the properties of the merge\<close>

text \<open>The decisions of the merge loop for one fetched post, and the statements it issues.\<close>

definition skipped :: "bool \<Rightarrow> string \<Rightarrow> api_post \<Rightarrow> bool" where
  "skipped update_all cutoff q = (\<not> update_all \<and> a_createdAt q \<le> cutoff)"

definition lookup_uri :: "post_row list \<Rightarrow> api_post \<Rightarrow> post_row list" where
  "lookup_uri tracked q = filter (\<lambda>t. uri t = a_uri q) tracked"

definition counters_differ :: "post_row \<Rightarrow> api_post \<Rightarrow> bool" where
  "counters_differ t q =
     (likes t \<noteq> likeCount q \<or> replies t \<noteq> replyCount q \<or>
      quotes t \<noteq> quoteCount q \<or> reposts t \<noteq> repostCount q)"

definition needs_update :: "post_row list \<Rightarrow> api_post \<Rightarrow> bool" where
  "needs_update tracked q =
     (case lookup_uri tracked q of [] \<Rightarrow> False | t # _ \<Rightarrow> counters_differ t q)"

definition is_new :: "post_row list \<Rightarrow> api_post \<Rightarrow> bool" where
  "is_new tracked q = (lookup_uri tracked q = [])"

definition update_of :: "datetime \<Rightarrow> api_post \<Rightarrow> update_stmt" where
  "update_of now q =
     \<lparr>set_likes = likeCount q, set_replies = replyCount q, set_quotes = quoteCount q,
      set_reposts = repostCount q, set_updatedAt = now, where_uri = a_uri q\<rparr>"

definition row_of :: "datetime \<Rightarrow> api_post \<Rightarrow> post_row" where
  "row_of now q =
     \<lparr>uri = a_uri q, p_did = a_author_did q, likes = likeCount q, replies = replyCount q,
      quotes = quoteCount q, reposts = repostCount q, createdAt = a_createdAt q,
      updatedAt = now\<rparr>"

definition stored_recent :: post_row where
  "stored_recent = \<lparr>uri = ''at://did:abc/app.bsky.feed.post/1'', p_did = ''did:abc'',
     likes = 10, replies = 1, quotes = 0, reposts = 2,
     createdAt = ''2024-01-14T09:00:00.000Z'', updatedAt = \<lparr>dt_day = 19736, dt_usec = 0\<rparr>\<rparr>"

definition user_abc :: user_row where
  "user_abc = \<lparr>u_did = ''did:abc'', u_handle = ''abc.bsky.social'', u_displayName = Some ''Abc'',
     u_avatar = None, u_skip_user = False\<rparr>"

text \<open>A store that tracks one recent post of \<open>did:abc\<close>.\<close>

definition w_tracked :: world where
  "w_tracked = \<lparr>users = [user_abc], posts = [stored_recent], snapshots = [], snapshot_logs = [],
     views = [], connect_outcomes = [], uuid_counter = 0\<rparr>"

text \<open>A store in which \<open>did:abc\<close> has no post.\<close>

definition w_new :: world where
  "w_new = \<lparr>users = [user_abc], posts = [], snapshots = [], snapshot_logs = [],
     views = [], connect_outcomes = [], uuid_counter = 0\<rparr>"

text \<open>A provider with one feed page: the tracked post, unchanged, and a post of the cutoff day.\<close>

definition env_boundary :: env where
  "env_boundary = \<lparr>base_url = ''https://public.api.bsky.app'',
     requests_get = (\<lambda>url. Inr \<lparr>r_profiles = None,
                                 r_feed = Some [Entry post_recent, Entry post_boundary],
                                 r_cursor = None\<rparr>),
     recursion_limit = 1000\<rparr>"

text \<open>
  The instant that an ISO 8601 UTC timestamp \<open>YYYY-MM-DDTHH:MM:SS...\<close> names, to the second.
\<close>

definition iso_instant :: "string \<Rightarrow> datetime option" where
  "iso_instant s =
     (case strptime_ymd (take 10 s) of
        Inl _ \<Rightarrow> None
      | Inr d \<Rightarrow>
         (case drop 10 s of
            t # h1 # h2 # c1 # m1 # m2 # c2 # s1 # s2 # _ \<Rightarrow>
              if t = CHR ''T'' \<and> c1 = CHR '':'' \<and> c2 = CHR '':'' \<and> is_digit h1 \<and> is_digit h2
                 \<and> is_digit m1 \<and> is_digit m2 \<and> is_digit s1 \<and> is_digit s2
              then Some \<lparr>dt_day = dt_day d,
                         dt_usec = nat (((10 * digit_val h1 + digit_val h2) * 60
                                         + 10 * digit_val m1 + digit_val m2) * 60
                                        + 10 * digit_val s1 + digit_val s2) * 1000000\<rparr>
              else None
          | _ \<Rightarrow> None))"

text \<open>The post was created before the instant \<open>t\<close>.\<close>

definition created_before :: "api_post \<Rightarrow> datetime \<Rightarrow> bool" where
  "created_before p t =
     (case iso_instant (a_createdAt p) of None \<Rightarrow> False | Some c \<Rightarrow> dt_greater t c)"


text \<open>
  A provider with two feed pages: a recent post, then, behind a cursor older than the
  cutoff, an old one.
\<close>

definition env_two_pages :: env where
  "env_two_pages = \<lparr>base_url = ''https://public.api.bsky.app'',
     requests_get = (\<lambda>url.
        if url = ''https://public.api.bsky.app/xrpc/app.bsky.feed.getAuthorFeed?actor=did:abc&cursor=&limit=100''
        then Inr \<lparr>r_profiles = None, r_feed = Some [Entry post_recent],
                  r_cursor = Some ''2023-12-01T00:00:00.000Z''\<rparr>
        else Inr \<lparr>r_profiles = None, r_feed = Some [Entry post_old], r_cursor = None\<rparr>),
     recursion_limit = 1000\<rparr>"

text \<open>A provider with one feed page: the tracked post, unchanged, and an old post.\<close>

definition env_with_old :: env where
  "env_with_old = \<lparr>base_url = ''https://public.api.bsky.app'',
     requests_get = (\<lambda>url. Inr \<lparr>r_profiles = None,
                                 r_feed = Some [Entry post_recent, Entry post_old],
                                 r_cursor = None\<rparr>),
     recursion_limit = 1000\<rparr>"


text \<open>The two states hold the same tables.\<close>

definition same_tables :: "world \<Rightarrow> world \<Rightarrow> bool" where
  "same_tables w w' =
     (users w' = users w \<and> posts w' = posts w \<and> snapshots w' = snapshots w \<and>
      snapshot_logs w' = snapshot_logs w \<and> views w' = views w)"

text \<open>The results of the tasks of a batch, in the order in which they are run.\<close>

fun task_results ::
  "env \<Rightarrow> datetime \<Rightarrow> world \<Rightarrow> UserProfile list \<Rightarrow> string \<Rightarrow> (exn + SnapshotData option) list" where
  "task_results e now w [] curr_date = []"
| "task_results e now w (profile # rest) curr_date =
     (case process_user_profile e now w profile curr_date of
        (r, w1) \<Rightarrow> r # task_results e now w1 rest curr_date)"

definition is_snapshot :: "exn + SnapshotData option \<Rightarrow> bool" where
  "is_snapshot r = (case r of Inr (Some s) \<Rightarrow> True | _ \<Rightarrow> False)"

definition user_skip :: user_row where
  "user_skip = \<lparr>u_did = ''did:skip'', u_handle = ''skip.bsky.social'', u_displayName = None,
     u_avatar = None, u_skip_user = True\<rparr>"

definition profile_abc :: UserProfile where
  "profile_abc = \<lparr>did = ''did:abc'', handle = ''abc.bsky.social'', display_name = Some ''Abc'',
     avatar = None, followers_count = 100, following_count = 50, posts_count = 5\<rparr>"

definition profile_skip :: UserProfile where
  "profile_skip = \<lparr>did = ''did:skip'', handle = ''skip.bsky.social'', display_name = None,
     avatar = None, followers_count = 7, following_count = 8, posts_count = 9\<rparr>"

definition profile_gone :: UserProfile where
  "profile_gone = \<lparr>did = ''did:gone'', handle = ''gone.bsky.social'', display_name = None,
     avatar = None, followers_count = 1, following_count = 2, posts_count = 3\<rparr>"

text \<open>A store with a user to process and a user flagged to be skipped.\<close>

definition w_two :: world where
  "w_two = \<lparr>users = [user_abc, user_skip], posts = [stored_recent], snapshots = [],
     snapshot_logs = [], views = [], connect_outcomes = [], uuid_counter = 0\<rparr>"

text \<open>The same store when the second connection attempt fails.\<close>

definition w_outage :: world where
  "w_outage = \<lparr>users = [user_abc, user_skip], posts = [stored_recent], snapshots = [],
     snapshot_logs = [], views = [], connect_outcomes = [True, False], uuid_counter = 0\<rparr>"





text \<open>A sequence of runs, each with its provider, clock readings and query mode.\<close>

fun run_all :: "(env \<times> datetime \<times> real \<times> real \<times> bool) list \<Rightarrow> world \<Rightarrow> world" where
  "run_all [] w = w"
| "run_all ((e, now, start_time, end_time, use_simple_query) # runs) w =
     run_all runs (snd (run_snapshot_collection e now start_time end_time w use_simple_query))"

subsection \<open>One snapshot row per account and day\<close>

definition snapshots_unique :: "world \<Rightarrow> bool" where
  "snapshots_unique w = distinct (map snapshot_key (snapshots w))"

text \<open>A store with a snapshot of \<open>did:abc\<close> for 2024-01-15, and fresher data for it.\<close>

definition w_snap :: world where
  "w_snap = \<lparr>users = [user_abc], posts = [stored_recent],
     snapshots = [\<lparr>s_uuid = 7, s_followers = 90, s_following = 50, s_posts = 4,
                   s_date = ''2024-01-15'', s_did = ''did:abc'', s_likes = 3, s_replies = 1,
                   s_quotes = 0, s_reposts = 2\<rparr>],
     snapshot_logs = [], views = [], connect_outcomes = [], uuid_counter = 8\<rparr>"

definition snap_abc :: SnapshotData where
  "snap_abc = \<lparr>sd_did = ''did:abc'', sd_handle = ''abc.bsky.social'', sd_date = ''2024-01-15'',
     sd_followers = 100, sd_following = 50, sd_posts = 5, sd_likes = 15, sd_replies = 1,
     sd_quotes = 0, sd_reposts = 2\<rparr>"

(*PROPERTIES*)
section \<open>Properties of the store\<close>

lemma get_connection_tables:
  "users (snd (get_connection w)) = users w"
  "posts (snd (get_connection w)) = posts w"
  "snapshots (snd (get_connection w)) = snapshots w"
  "snapshot_logs (snd (get_connection w)) = snapshot_logs w"
  "views (snd (get_connection w)) = views w"
  "uuid_counter (snd (get_connection w)) = uuid_counter w"
  by (simp_all add: get_connection_def split: list.splits)

lemma or_zero_sql_sum: "or_zero (sql_sum xs) = sum_list xs"
  by (simp add: or_zero_def sql_sum_def)

text \<open>
  C9. When its connection opens, \<open>get_engagement_totals\<close> returns, for every account, the
  sums of likes, replies, quotes and reposts over all stored posts of that account; for an
  account with no stored post the result is the all-zero record, not a failure.
\<close>

theorem get_engagement_totals_sums:
  assumes "fst (get_connection w) = Inr ()"
  shows "fst (get_engagement_totals w d) =
           Inr \<lparr>e_likes = sum_list (map likes (filter (\<lambda>p. p_did p = d) (posts w))),
                e_replies = sum_list (map replies (filter (\<lambda>p. p_did p = d) (posts w))),
                e_quotes = sum_list (map quotes (filter (\<lambda>p. p_did p = d) (posts w))),
                e_reposts = sum_list (map reposts (filter (\<lambda>p. p_did p = d) (posts w)))\<rparr>
         \<and> (filter (\<lambda>p. p_did p = d) (posts w) = [] \<longrightarrow>
              fst (get_engagement_totals w d) =
                Inr \<lparr>e_likes = 0, e_replies = 0, e_quotes = 0, e_reposts = 0\<rparr>)"
proof -
  obtain r w' where c: "get_connection w = (r, w')" by (cases "get_connection w")
  with assms have r: "r = Inr ()" by simp
  have p: "posts w' = posts w" using get_connection_tables(2)[of w] c by simp
  show ?thesis
    by (simp add: get_engagement_totals_def c r p select_engagement_def Let_def or_zero_sql_sum)
qed

theorem get_engagement_totals_sums_witness:
  "fst (get_connection w_example) = Inr ()
   \<and> fst (get_engagement_totals w_example ''did:abc'') =
       Inr \<lparr>e_likes = 15, e_replies = 1, e_quotes = 3, e_reposts = 2\<rparr>
   \<and> fst (get_engagement_totals w_example ''did:none'') =
       Inr \<lparr>e_likes = 0, e_replies = 0, e_quotes = 0, e_reposts = 0\<rparr>"
proof -
  have h: "fst (get_connection w_example) = Inr ()"
    by (simp add: get_connection_def w_example_def)
  show ?thesis
    using h get_engagement_totals_sums [OF h, of "''did:abc''"]
          get_engagement_totals_sums [OF h, of "''did:none''"]
    by (simp add: w_example_def)
qed

section \<open>Properties of the client\<close>

text \<open>
  C8 (as amended). \<open>get_single_profile\<close> fails with \<open>BlueskyAPIError\<close> and the message
  \<open>No profile found for <actor>\<close> when the provider's answer holds no profile; a transport
  failure is raised as the same exception class \<open>BlueskyAPIError\<close>, with the message
  \<open>Failed to call <path>: <cause>\<close>; otherwise the first profile of the answer is returned.
\<close>

theorem get_single_profile_cases:
  "(get_profiles e [actor] = Inr [] \<longrightarrow>
      get_single_profile e actor = Inl (BlueskyAPIError (''No profile found for '' @ actor)))
   \<and> (get_profiles e [actor] = Inr (p # ps) \<longrightarrow> get_single_profile e actor = Inr p)
   \<and> (get_profiles e [actor] = Inl err \<longrightarrow> get_single_profile e actor = Inl err)
   \<and> (requests_get e (base_url e @ ''/xrpc/app.bsky.actor.getProfiles?actors='' @ actor) = Inl msg \<longrightarrow>
        get_single_profile e actor =
          Inl (BlueskyAPIError (''Failed to call app.bsky.actor.getProfiles: '' @ msg)))"
  by (simp add: get_single_profile_def get_profiles_def call_endpoint_def)

theorem get_single_profile_cases_witness:
  "get_profiles env_no_match [''bsky.app''] = Inr []
   \<and> get_single_profile env_no_match ''bsky.app'' =
       Inl (BlueskyAPIError ''No profile found for bsky.app'')
   \<and> get_single_profile env_one_match ''bsky.app'' =
       Inr \<lparr>did = ''did:plc:z72i7hdynmk6r22z27h6tvur'', handle = ''bsky.app'',
            display_name = Some ''Bluesky'', avatar = None, followers_count = 100,
            following_count = 50, posts_count = 0\<rparr>
   \<and> get_single_profile env_down ''bsky.app'' =
       Inl (BlueskyAPIError ''Failed to call app.bsky.actor.getProfiles: connection refused'')"
proof -
  have a: "get_profiles env_no_match [''bsky.app''] = Inr []"
    by (simp add: get_profiles_def call_endpoint_def env_no_match_def)
  have b: "get_profiles env_one_match [''bsky.app''] =
       Inr [\<lparr>did = ''did:plc:z72i7hdynmk6r22z27h6tvur'', handle = ''bsky.app'',
            display_name = Some ''Bluesky'', avatar = None, followers_count = 100,
            following_count = 50, posts_count = 0\<rparr>]"
    by (simp add: get_profiles_def call_endpoint_def env_one_match_def bsky_profile_def)
  have c: "requests_get env_down (base_url env_down @ ''/xrpc/app.bsky.actor.getProfiles?actors='' @ ''bsky.app'')
       = Inl ''connection refused''"
    by (simp add: env_down_def)
  show ?thesis
    using a b c get_single_profile_cases [of env_no_match "''bsky.app''"]
      get_single_profile_cases [of env_one_match "''bsky.app''"]
      get_single_profile_cases [of env_down "''bsky.app''" _ _ _ "''connection refused''"]
    by simp
qed

text \<open>
  The error of a lookup that found nothing and the error of a failed transport are of one
  class: the code has no separate not-found exception.
\<close>

theorem get_single_profile_same_class_counterexample:
  "get_single_profile env_no_match ''bsky.app'' =
       Inl (BlueskyAPIError ''No profile found for bsky.app'')
   \<and> get_single_profile env_down ''bsky.app'' =
       Inl (BlueskyAPIError ''Failed to call app.bsky.actor.getProfiles: connection refused'')
   \<and> exn_class (BlueskyAPIError ''No profile found for bsky.app'') =
       exn_class (BlueskyAPIError ''Failed to call app.bsky.actor.getProfiles: connection refused'')"
  by (simp add: get_single_profile_def get_profiles_def call_endpoint_def env_no_match_def
      env_down_def exn_class_def)

subsection \<open>The snapshot upsert\<close>

lemma keys_insert_snapshot:
  "map snapshot_key (insert_snapshot_on_conflict tbl u s) =
     (if \<exists>r \<in> set tbl. same_key s r then map snapshot_key tbl
      else map snapshot_key tbl @ [(sd_did s, sd_date s)])"
  by (auto simp: insert_snapshot_on_conflict_def snapshot_key_def same_key_def)

lemma same_key_iff: "same_key s r \<longleftrightarrow> snapshot_key r = (sd_did s, sd_date s)"
  by (auto simp: same_key_def snapshot_key_def)

lemma distinct_insert_snapshot:
  "distinct (map snapshot_key tbl) \<Longrightarrow>
   distinct (map snapshot_key (insert_snapshot_on_conflict tbl u s))"
  by (auto simp: keys_insert_snapshot same_key_iff)

lemma ex_same_key_iff:
  "(\<exists>r \<in> set tbl. same_key s r) \<longleftrightarrow> (sd_did s, sd_date s) \<in> set (map snapshot_key tbl)"
  by (force simp: same_key_iff)

lemma insert_snapshot_has_key:
  "\<exists>r \<in> set (insert_snapshot_on_conflict tbl u s). same_key s r"
  unfolding ex_same_key_iff keys_insert_snapshot by simp

lemma insert_snapshot_idem:
  "insert_snapshot_on_conflict (insert_snapshot_on_conflict tbl u s) u' s =
   insert_snapshot_on_conflict tbl u s"
proof -
  have "insert_snapshot_on_conflict (insert_snapshot_on_conflict tbl u s) u' s =
        map (\<lambda>r. if same_key s r
                     then r\<lparr>s_followers := sd_followers s, s_following := sd_following s,
                            s_posts := sd_posts s, s_likes := sd_likes s,
                            s_replies := sd_replies s, s_quotes := sd_quotes s,
                            s_reposts := sd_reposts s\<rparr>
                     else r) (insert_snapshot_on_conflict tbl u s)"
    using insert_snapshot_has_key[of tbl u s]
    by (subst insert_snapshot_on_conflict_def) simp
  also have "\<dots> = insert_snapshot_on_conflict tbl u s"
    by (auto simp: insert_snapshot_on_conflict_def same_key_def intro!: map_idI)
  finally show ?thesis .
qed

lemma insert_snapshot_overwrites:
  "r \<in> set (insert_snapshot_on_conflict tbl u s) \<Longrightarrow> same_key s r \<Longrightarrow>
   s_followers r = sd_followers s \<and> s_following r = sd_following s \<and> s_posts r = sd_posts s \<and>
   s_likes r = sd_likes s \<and> s_replies r = sd_replies s \<and> s_quotes r = sd_quotes s \<and>
   s_reposts r = sd_reposts s"
  by (auto simp: insert_snapshot_on_conflict_def same_key_def split: if_splits)

lemma insert_snapshot_length:
  "length (insert_snapshot_on_conflict tbl u s) =
     (if \<exists>r \<in> set tbl. same_key s r then length tbl else Suc (length tbl))"
  by (simp add: insert_snapshot_on_conflict_def)

lemma insert_snapshot_others:
  "\<not> same_key s r \<Longrightarrow> r \<in> set (insert_snapshot_on_conflict tbl u s) \<longleftrightarrow> r \<in> set tbl"
  by (auto simp: insert_snapshot_on_conflict_def same_key_def)

section \<open>Properties of the post synchronizer\<close>

subsection \<open>The paginated fetch\<close>

lemma collect_actor_posts_ext:
  "\<exists>ext. fst (collect_actor_posts actor es ps) = ps @ ext \<and> (\<forall>p \<in> set ext. a_author_did p = actor)"
proof (induction actor es ps rule: collect_actor_posts.induct)
  case (1 actor ps)
  then show ?case by simp
next
  case (2 actor es ps)
  then show ?case by simp
next
  case (3 actor p es ps)
  show ?case
  proof (cases "a_author_did p = actor")
    case True
    with 3 obtain ext where "fst (collect_actor_posts actor es (ps @ [p])) = (ps @ [p]) @ ext"
      and "\<forall>q \<in> set ext. a_author_did q = actor" by blast
    with True show ?thesis by (intro exI[of _ "p # ext"]) simp
  next
    case False
    with 3 show ?thesis by simp
  qed
qed

lemma extends_refl: "extends_by_actor actor ps ps"
  by (simp add: extends_by_actor_def)

lemma extends_trans:
  "extends_by_actor actor a b \<Longrightarrow> extends_by_actor actor b c \<Longrightarrow> extends_by_actor actor a c"
  by (auto simp: extends_by_actor_def)

lemma collect_extends: "extends_by_actor actor ps (fst (collect_actor_posts actor es ps))"
  using collect_actor_posts_ext[of actor es ps] by (simp add: extends_by_actor_def)

lemma get_posts_try_extends:
  assumes "\<And>c ps' r. self_call c ps' = Inr r \<Longrightarrow> extends_by_actor actor ps' r"
  shows "extends_by_actor actor ps (fst (get_posts_try self_call e now actor cursor ps fetch_all))"
proof -
  have c: "\<And>es ps' x. collect_actor_posts actor es ps = (ps', x) \<Longrightarrow> extends_by_actor actor ps ps'"
    using collect_extends[of actor ps] by (metis fst_conv)
  have s: "\<And>c ps' ps'' r. extends_by_actor actor ps ps' \<Longrightarrow> self_call c ps' = Inr r \<Longrightarrow> extends_by_actor actor ps r"
    using assms extends_trans by blast
  show ?thesis
    unfolding get_posts_try_def
    by (auto simp: extends_refl Let_def dest: c s split: sum.splits option.splits prod.splits)
qed

lemma get_posts_for_actor_eq:
  "get_posts_for_actor depth e now actor cursor ps fetch_all =
     Inr (fst (get_posts_try
                (case depth of 0 \<Rightarrow> (\<lambda>c ps'. Inl RecursionError)
                 | Suc n \<Rightarrow> (\<lambda>c ps'. get_posts_for_actor n e now actor c ps' fetch_all))
                e now actor cursor ps fetch_all))"
  by (cases depth) (auto split: prod.splits option.splits)

lemma get_posts_for_actor_extends:
  "\<exists>ps'. get_posts_for_actor depth e now actor cursor ps fetch_all = Inr ps' \<and>
         extends_by_actor actor ps ps'"
proof (induction depth arbitrary: cursor ps)
  case 0
  have "extends_by_actor actor ps
          (fst (get_posts_try (\<lambda>c ps'. Inl RecursionError) e now actor cursor ps fetch_all))"
    by (rule get_posts_try_extends) simp
  then show ?case
    by (subst get_posts_for_actor_eq) simp
next
  case (Suc n)
  have "\<And>c ps' r. get_posts_for_actor n e now actor c ps' fetch_all = Inr r \<Longrightarrow>
          extends_by_actor actor ps' r"
    using Suc[of _ _] by (metis sum.inject(2))
  then have "extends_by_actor actor ps
          (fst (get_posts_try (\<lambda>c ps'. get_posts_for_actor n e now actor c ps' fetch_all)
                  e now actor cursor ps fetch_all))"
    by (rule get_posts_try_extends)
  then show ?case
    by (subst get_posts_for_actor_eq) simp
qed

lemma get_posts_for_actor_numeral:
  "get_posts_for_actor (numeral k) e now actor cursor ps fetch_all =
     Inr (fst (get_posts_try
                (\<lambda>c ps'. get_posts_for_actor (pred_numeral k) e now actor c ps' fetch_all)
                e now actor cursor ps fetch_all))"
  by (subst get_posts_for_actor_eq) (simp add: numeral_eq_Suc)

lemma str_date_19730: "str_date \<lparr>dt_day = 19730, dt_usec = u\<rparr> = ''2024-01-08''"
  by code_simp

lemma now0_val: "now0 = \<lparr>dt_day = 19737, dt_usec = 54000000000\<rparr>"
  by (simp add: now0_def mk_datetime_def days_from_civil_def)

lemma cursor_13: "strptime_ymd ''2024-01-13'' = Inr \<lparr>dt_day = 19735, dt_usec = 0\<rparr>"
  by code_simp

lemma now0_cutoff: "str_date (minus_days now0 7) = ''2024-01-08''"
  by (simp add: now0_val minus_days_def str_date_19730)

lemma get_posts_for_actor_call_fails:
  "call_endpoint e ''app.bsky.feed.getAuthorFeed''
      (''actor='' @ actor @ ''&cursor='' @ cursor @ ''&limit=100'') = Inl err \<Longrightarrow>
   get_posts_for_actor depth e now actor cursor ps fetch_all = Inr ps"
  by (subst get_posts_for_actor_eq) (simp add: get_posts_try_def)

lemma get_posts_for_actor_no_feed:
  "call_endpoint e ''app.bsky.feed.getAuthorFeed''
      (''actor='' @ actor @ ''&cursor='' @ cursor @ ''&limit=100'') = Inr resp \<Longrightarrow>
   r_feed resp = None \<Longrightarrow>
   get_posts_for_actor depth e now actor cursor ps fetch_all = Inr ps"
  by (subst get_posts_for_actor_eq) (simp add: get_posts_try_def)

lemma get_posts_for_actor_bad_entry:
  "call_endpoint e ''app.bsky.feed.getAuthorFeed''
      (''actor='' @ actor @ ''&cursor='' @ cursor @ ''&limit=100'') = Inr resp \<Longrightarrow>
   r_feed resp = Some entries \<Longrightarrow>
   collect_actor_posts actor entries ps = (ps', Some err) \<Longrightarrow>
   get_posts_for_actor depth e now actor cursor ps fetch_all = Inr ps'"
  by (subst get_posts_for_actor_eq) (simp add: get_posts_try_def)

lemma get_posts_for_actor_last_page:
  "call_endpoint e ''app.bsky.feed.getAuthorFeed''
      (''actor='' @ actor @ ''&cursor='' @ cursor @ ''&limit=100'') = Inr resp \<Longrightarrow>
   r_feed resp = Some entries \<Longrightarrow>
   collect_actor_posts actor entries ps = (ps', None) \<Longrightarrow>
   r_cursor resp = None \<Longrightarrow>
   get_posts_for_actor depth e now actor cursor ps fetch_all = Inr ps'"
  by (subst get_posts_for_actor_eq) (simp add: get_posts_try_def)

lemma get_posts_for_actor_bad_cursor:
  "call_endpoint e ''app.bsky.feed.getAuthorFeed''
      (''actor='' @ actor @ ''&cursor='' @ cursor @ ''&limit=100'') = Inr resp \<Longrightarrow>
   r_feed resp = Some entries \<Longrightarrow>
   collect_actor_posts actor entries ps = (ps', None) \<Longrightarrow>
   r_cursor resp = Some c \<Longrightarrow> length ps' < 10000 \<Longrightarrow>
   strptime_ymd (take 10 c) = Inl err \<Longrightarrow>
   get_posts_for_actor depth e now actor cursor ps False = Inr ps'"
  by (subst get_posts_for_actor_eq) (simp add: get_posts_try_def)

lemma get_posts_for_actor_next_page:
  "call_endpoint e ''app.bsky.feed.getAuthorFeed''
      (''actor='' @ actor @ ''&cursor='' @ cursor @ ''&limit=100'') = Inr resp \<Longrightarrow>
   r_feed resp = Some entries \<Longrightarrow>
   collect_actor_posts actor entries ps = (ps', None) \<Longrightarrow>
   r_cursor resp = Some c \<Longrightarrow> length ps' < 10000 \<Longrightarrow>
   fetch_all \<or> (\<exists>cd. strptime_ymd (take 10 c) = Inr cd \<and> dt_greater cd (minus_days now 7)) \<Longrightarrow>
   get_posts_for_actor (Suc depth) e now actor cursor ps fetch_all =
     get_posts_for_actor depth e now actor c ps' fetch_all"
  using get_posts_for_actor_extends[of depth e now actor c ps' fetch_all]
  by (subst get_posts_for_actor_eq) (auto simp add: get_posts_try_def)

lemma get_posts_for_actor_stop:
  "call_endpoint e ''app.bsky.feed.getAuthorFeed''
      (''actor='' @ actor @ ''&cursor='' @ cursor @ ''&limit=100'') = Inr resp \<Longrightarrow>
   r_feed resp = Some entries \<Longrightarrow>
   collect_actor_posts actor entries ps = (ps', None) \<Longrightarrow>
   r_cursor resp = Some c \<Longrightarrow>
   \<not> length ps' < 10000 \<or>
     (\<not> fetch_all \<and> (\<exists>cd. strptime_ymd (take 10 c) = Inr cd \<and> \<not> dt_greater cd (minus_days now 7))) \<Longrightarrow>
   get_posts_for_actor depth e now actor cursor ps fetch_all = Inr ps'"
  by (subst get_posts_for_actor_eq) (auto simp add: get_posts_try_def)

lemma get_posts_for_actor_unfold:
  "get_posts_for_actor depth e now actor cursor ps fetch_all =
     (case call_endpoint e ''app.bsky.feed.getAuthorFeed''
             (''actor='' @ actor @ ''&cursor='' @ cursor @ ''&limit=100'') of
        Inl err \<Rightarrow> Inr ps
      | Inr resp \<Rightarrow>
         (case r_feed resp of
            None \<Rightarrow> Inr ps
          | Some entries \<Rightarrow>
             (case collect_actor_posts actor entries ps of
                (ps', Some err) \<Rightarrow> Inr ps'
              | (ps', None) \<Rightarrow>
                 (case r_cursor resp of
                    None \<Rightarrow> Inr ps'
                  | Some c \<Rightarrow>
                     if length ps' < 10000 \<and>
                        (fetch_all \<or>
                         (case strptime_ymd (take 10 c) of
                            Inl err \<Rightarrow> False
                          | Inr cursor_datetime \<Rightarrow> dt_greater cursor_datetime (minus_days now 7)))
                     then (case depth of
                             0 \<Rightarrow> Inr ps'
                           | Suc n \<Rightarrow> get_posts_for_actor n e now actor c ps' fetch_all)
                     else Inr ps'))))"
proof (cases depth)
  case 0
  then show ?thesis
    by (subst get_posts_for_actor_eq)
       (auto simp: get_posts_try_def split: sum.splits option.splits prod.splits)
next
  case (Suc n)
  have r: "\<And>c ps'. \<exists>r. get_posts_for_actor n e now actor c ps' fetch_all = Inr r"
    using get_posts_for_actor_extends by blast
  show ?thesis
    unfolding Suc
    apply (subst get_posts_for_actor_eq)
    apply (auto simp: get_posts_try_def split: sum.splits option.splits prod.splits)
    using r apply (metis sum.distinct(1) sum.inject(2))+
    done
qed

subsection \<open>The merge\<close>

lemma merge_posts_Cons:
  "merge_posts ua cutoff now tracked (q # rest) =
     (if skipped ua cutoff q then merge_posts ua cutoff now tracked rest
      else if needs_update tracked q
        then (update_of now q # fst (merge_posts ua cutoff now tracked rest),
              snd (merge_posts ua cutoff now tracked rest))
      else if is_new tracked q
        then (fst (merge_posts ua cutoff now tracked rest),
              row_of now q # snd (merge_posts ua cutoff now tracked rest))
      else merge_posts ua cutoff now tracked rest)"
  by (simp add: skipped_def needs_update_def lookup_uri_def counters_differ_def update_of_def
        is_new_def row_of_def split: prod.splits list.splits)

lemma not_new_and_needs_update: "needs_update tracked q \<Longrightarrow> \<not> is_new tracked q"
  by (auto simp: needs_update_def is_new_def)

lemma merge_posts_updates:
  "fst (merge_posts ua cutoff now tracked fetched) =
     map (update_of now)
       (filter (\<lambda>q. \<not> skipped ua cutoff q \<and> needs_update tracked q) fetched)"
proof (induction fetched)
  case Nil
  then show ?case by simp
next
  case (Cons q rest)
  then show ?case by (simp only: merge_posts_Cons) simp
qed

lemma merge_posts_inserts:
  "snd (merge_posts ua cutoff now tracked fetched) =
     map (row_of now)
       (filter (\<lambda>q. \<not> skipped ua cutoff q \<and> is_new tracked q) fetched)"
proof (induction fetched)
  case Nil
  then show ?case by simp
next
  case (Cons q rest)
  then show ?case
    by (simp only: merge_posts_Cons) (simp add: not_new_and_needs_update)
qed

lemma where_uri_update_of [simp]: "where_uri (update_of now q) = a_uri q"
  by (simp add: update_of_def)

lemma uri_row_of [simp]: "uri (row_of now q) = a_uri q"
  by (simp add: row_of_def)


lemma drop_duplicates_uri_uris: "a_uri ` set (drop_duplicates_uri ps) = a_uri ` set ps"
  by (induction ps rule: drop_duplicates_uri.induct) auto

lemma drop_duplicates_uri_distinct: "distinct (map a_uri (drop_duplicates_uri ps))"
proof (induction ps rule: drop_duplicates_uri.induct)
  case 1
  then show ?case by simp
next
  case (2 p ps)
  have "a_uri p \<notin> a_uri ` set (drop_duplicates_uri (filter (\<lambda>q. a_uri q \<noteq> a_uri p) ps))"
    unfolding drop_duplicates_uri_uris by auto
  with 2 show ?case by simp
qed


lemma drop_duplicates_uri_id: "distinct (map a_uri ps) \<Longrightarrow> drop_duplicates_uri ps = ps"
proof (induction ps rule: drop_duplicates_uri.induct)
  case 1
  then show ?case by simp
next
  case (2 p ps)
  from 2(2) have "a_uri p \<notin> a_uri ` set ps" and d: "distinct (map a_uri ps)" by simp_all
  then have f: "filter (\<lambda>q. a_uri q \<noteq> a_uri p) ps = ps"
    by (intro filter_True) (metis imageI)
  with 2(1) d show ?case by simp
qed


text \<open>
  C10. \<open>get_posts_for_actor\<close> never raises: for every recursion depth, environment, actor,
  cursor, accumulated posts and mode it returns a list that extends the accumulated posts by
  posts of the actor. When the remote call fails, when the page has no \<open>feed\<close>, when an
  entry of the page cannot be read or when the cursor is not a date, it returns the posts
  accumulated up to that point.
\<close>

theorem get_posts_for_actor_never_raises:
  "(\<exists>ps'. get_posts_for_actor depth e now actor cursor ps fetch_all = Inr ps' \<and>
          extends_by_actor actor ps ps')
   \<and> (\<forall>err. call_endpoint e ''app.bsky.feed.getAuthorFeed''
                (''actor='' @ actor @ ''&cursor='' @ cursor @ ''&limit=100'') = Inl err \<longrightarrow>
          get_posts_for_actor depth e now actor cursor ps fetch_all = Inr ps)
   \<and> (\<forall>resp. call_endpoint e ''app.bsky.feed.getAuthorFeed''
                (''actor='' @ actor @ ''&cursor='' @ cursor @ ''&limit=100'') = Inr resp \<longrightarrow>
          (r_feed resp = None \<longrightarrow>
             get_posts_for_actor depth e now actor cursor ps fetch_all = Inr ps) \<and>
          (\<forall>entries ps' err.
             r_feed resp = Some entries \<and>
             collect_actor_posts actor entries ps = (ps', Some err) \<longrightarrow>
             get_posts_for_actor depth e now actor cursor ps fetch_all = Inr ps') \<and>
          (\<forall>entries ps' c err.
             r_feed resp = Some entries \<and>
             collect_actor_posts actor entries ps = (ps', None) \<and>
             r_cursor resp = Some c \<and> length ps' < 10000 \<and> \<not> fetch_all \<and>
             strptime_ymd (take 10 c) = Inl err \<longrightarrow>
             get_posts_for_actor depth e now actor cursor ps fetch_all = Inr ps'))"
proof (intro conjI allI impI; (elim conjE)?)
  show "\<exists>ps'. get_posts_for_actor depth e now actor cursor ps fetch_all = Inr ps' \<and>
          extends_by_actor actor ps ps'"
    by (rule get_posts_for_actor_extends)
next
  fix err
  assume "call_endpoint e ''app.bsky.feed.getAuthorFeed''
            (''actor='' @ actor @ ''&cursor='' @ cursor @ ''&limit=100'') = Inl err"
  then show "get_posts_for_actor depth e now actor cursor ps fetch_all = Inr ps"
    by (rule get_posts_for_actor_call_fails)
next
  fix resp
  assume "call_endpoint e ''app.bsky.feed.getAuthorFeed''
            (''actor='' @ actor @ ''&cursor='' @ cursor @ ''&limit=100'') = Inr resp"
     and "r_feed resp = None"
  then show "get_posts_for_actor depth e now actor cursor ps fetch_all = Inr ps"
    by (rule get_posts_for_actor_no_feed)
next
  fix resp entries ps' err
  assume "call_endpoint e ''app.bsky.feed.getAuthorFeed''
            (''actor='' @ actor @ ''&cursor='' @ cursor @ ''&limit=100'') = Inr resp"
     and "r_feed resp = Some entries"
     and "collect_actor_posts actor entries ps = (ps', Some err)"
  then show "get_posts_for_actor depth e now actor cursor ps fetch_all = Inr ps'"
    by (rule get_posts_for_actor_bad_entry)
next
  fix resp entries ps' c err
  assume "call_endpoint e ''app.bsky.feed.getAuthorFeed''
            (''actor='' @ actor @ ''&cursor='' @ cursor @ ''&limit=100'') = Inr resp"
     and "r_feed resp = Some entries"
     and "collect_actor_posts actor entries ps = (ps', None)"
     and "r_cursor resp = Some c" and "length ps' < 10000" and "\<not> fetch_all"
     and "strptime_ymd (take 10 c) = Inl err"
  then show "get_posts_for_actor depth e now actor cursor ps fetch_all = Inr ps'"
    using get_posts_for_actor_bad_cursor[of e actor cursor resp entries ps ps' c err depth now]
    by simp
qed

theorem get_posts_for_actor_never_raises_witness:
  "call_endpoint env_second_page_fails ''app.bsky.feed.getAuthorFeed''
      (''actor='' @ ''did:abc'' @ ''&cursor='' @ ''2024-01-13T10:00:00.000Z'' @ ''&limit=100'')
     = Inl (BlueskyAPIError ''Failed to call app.bsky.feed.getAuthorFeed: 502 Server Error'')
   \<and> get_posts_for_actor 999 env_second_page_fails now0 ''did:abc''
         ''2024-01-13T10:00:00.000Z'' [post_recent] False = Inr [post_recent]
   \<and> get_posts_for_actor 1000 env_second_page_fails now0 ''did:abc'' [] [] False
       = Inr [post_recent]"
proof -
  have c: "call_endpoint env_second_page_fails ''app.bsky.feed.getAuthorFeed''
      (''actor='' @ ''did:abc'' @ ''&cursor='' @ ''2024-01-13T10:00:00.000Z'' @ ''&limit=100'')
     = Inl (BlueskyAPIError ''Failed to call app.bsky.feed.getAuthorFeed: 502 Server Error'')"
    by (simp add: call_endpoint_def env_second_page_fails_def)
  have p2: "get_posts_for_actor 999 env_second_page_fails now0 ''did:abc''
         ''2024-01-13T10:00:00.000Z'' [post_recent] False = Inr [post_recent]"
    using c get_posts_for_actor_never_raises[of 999 env_second_page_fails now0 "''did:abc''"
        "''2024-01-13T10:00:00.000Z''" "[post_recent]" False]
    by blast
  have p1: "get_posts_for_actor 1000 env_second_page_fails now0 ''did:abc'' [] [] False
       = get_posts_for_actor 999 env_second_page_fails now0 ''did:abc''
         ''2024-01-13T10:00:00.000Z'' [post_recent] False"
    by (subst get_posts_for_actor_unfold)
       (simp add: call_endpoint_def env_second_page_fails_def
          post_recent_def repost_other_def cursor_13 now0_val minus_days_def dt_greater_def)
  show ?thesis using c p1 p2 by simp
qed

lemma date_2024_01_08: "strptime_ymd ''2024-01-08'' = Inr \<lparr>dt_day = 19730, dt_usec = 0\<rparr>"
  by code_simp


lemma date_2023_12_01: "strptime_ymd ''2023-12-01'' = Inr \<lparr>dt_day = 19692, dt_usec = 0\<rparr>"
  by code_simp

lemma post_boundary_created_before_cutoff: "created_before post_boundary (minus_days now0 7)"
  by (simp add: created_before_def iso_instant_def post_boundary_def date_2024_01_08
        now0_val minus_days_def dt_greater_def is_digit_def digit_val_def)

subsection \<open>Evaluations of the synchronizer\<close>

text \<open>
  A post created on the day of the cutoff, five hours before the cutoff instant, is inserted
  by an incremental run: the cutoff check compares the creation string with the date of the
  cutoff only.
\<close>

theorem incremental_inserts_post_of_cutoff_day_counterexample:
  "created_before post_boundary (minus_days now0 7)
   \<and> update_posts_for_actor env_boundary now0 w_tracked ''did:abc'' False =
       (Inr (), w_tracked\<lparr>posts :=
          [stored_recent,
           \<lparr>uri = ''at://did:abc/app.bsky.feed.post/2'', p_did = ''did:abc'', likes = 4,
            replies = 0, quotes = 0, reposts = 1, createdAt = ''2024-01-08T10:00:00.000Z'',
            updatedAt = now0\<rparr>]\<rparr>)"
proof -
  have "update_posts_for_actor env_boundary now0 w_tracked ''did:abc'' False =
       (Inr (), w_tracked\<lparr>posts :=
          [stored_recent,
           \<lparr>uri = ''at://did:abc/app.bsky.feed.post/2'', p_did = ''did:abc'', likes = 4,
            replies = 0, quotes = 0, reposts = 1, createdAt = ''2024-01-08T10:00:00.000Z'',
            updatedAt = now0\<rparr>]\<rparr>)"
    by (simp add: update_posts_for_actor_def get_connection_def w_tracked_def stored_recent_def
         get_posts_for_actor_unfold call_endpoint_def env_boundary_def post_recent_def
         post_boundary_def now0_cutoff)
  with post_boundary_created_before_cutoff show ?thesis by simp
qed


text \<open>
  C3 (evaluation at the failing input). For an account without stored posts the fetch runs
  with \<open>fetch_all = True\<close> and reaches the old post behind the second page, which an
  incremental fetch does not; the merge still follows the caller's \<open>update_all\<close>: with
  \<open>False\<close> the old post is fetched and dropped, with \<open>True\<close> it is stored.
\<close>

theorem bootstrap_merge_skips_old_posts:
  "filter (\<lambda>p. p_did p = ''did:abc'') (posts w_new) = []
   \<and> get_posts_for_actor 1000 env_two_pages now0 ''did:abc'' [] [] True =
       Inr [post_recent, post_old]
   \<and> get_posts_for_actor 1000 env_two_pages now0 ''did:abc'' [] [] False = Inr [post_recent]
   \<and> update_posts_for_actor env_two_pages now0 w_new ''did:abc'' False =
       (Inr (), w_new\<lparr>posts := [row_of now0 post_recent]\<rparr>)
   \<and> update_posts_for_actor env_two_pages now0 w_new ''did:abc'' True =
       (Inr (), w_new\<lparr>posts := [row_of now0 post_recent, row_of now0 post_old]\<rparr>)"
  by (simp add: update_posts_for_actor_def get_connection_def w_new_def
       get_posts_for_actor_unfold call_endpoint_def env_two_pages_def post_recent_def post_old_def
       str_date_19730 date_2023_12_01 now0_val minus_days_def dt_greater_def row_of_def)

subsection \<open>The effect of the statements on the table\<close>

lemma exec_update_other_uri:
  "where_uri u \<noteq> x \<Longrightarrow>
   filter (\<lambda>r. uri r = x) (exec_update u tbl) = filter (\<lambda>r. uri r = x) tbl"
  by (induction tbl) (auto simp: exec_update_def)

lemma fold_exec_update_other_uri:
  "x \<notin> where_uri ` set ups \<Longrightarrow>
   filter (\<lambda>r. uri r = x) (fold exec_update ups tbl) = filter (\<lambda>r. uri r = x) tbl"
  by (induction ups arbitrary: tbl) (auto simp: exec_update_other_uri)

lemma exec_inserts_other_uri:
  "exec_inserts tbl ins = Inr tbl' \<Longrightarrow> x \<notin> uri ` set ins \<Longrightarrow>
   filter (\<lambda>r. uri r = x) tbl' = filter (\<lambda>r. uri r = x) tbl"
  by (induction tbl ins rule: exec_inserts.induct) (auto split: if_splits)



lemma merge_posts_skipped_no_write:
  assumes d: "distinct (map a_uri fetched)" and P: "P \<in> set fetched"
      and s: "skipped ua cutoff P"
  shows "a_uri P \<notin> where_uri ` set (fst (merge_posts ua cutoff now tracked fetched))"
    and "a_uri P \<notin> uri ` set (snd (merge_posts ua cutoff now tracked fetched))"
proof -
  have inj: "inj_on a_uri (set fetched)" using d by (simp add: distinct_map)
  have eq: "\<And>q. q \<in> set fetched \<Longrightarrow> a_uri q = a_uri P \<Longrightarrow> q = P"
    using inj P by (auto dest: inj_onD)
  show "a_uri P \<notin> where_uri ` set (fst (merge_posts ua cutoff now tracked fetched))"
    using s eq by (auto simp: merge_posts_updates)
  show "a_uri P \<notin> uri ` set (snd (merge_posts ua cutoff now tracked fetched))"
    using s eq by (auto simp: merge_posts_inserts)
qed

lemma update_posts_for_actor_rows_kept:
  assumes f: "get_posts_for_actor (recursion_limit e) e now d [] []
                (if length (filter (\<lambda>p. p_did p = d) (posts w)) = 0 then True else ua) = Inr fetched"
      and nu: "a_uri P \<notin> where_uri ` set (fst (merge_posts ua (str_date (minus_days now 7)) now
                   (if ua then filter (\<lambda>p. p_did p = d) (posts w)
                    else filter (\<lambda>p. p_did p = d \<and> createdAt p > str_date (minus_days now 7)) (posts w))
                   (drop_duplicates_uri fetched)))"
      and ni: "a_uri P \<notin> uri ` set (snd (merge_posts ua (str_date (minus_days now 7)) now
                   (if ua then filter (\<lambda>p. p_did p = d) (posts w)
                    else filter (\<lambda>p. p_did p = d \<and> createdAt p > str_date (minus_days now 7)) (posts w))
                   (drop_duplicates_uri fetched)))"
  shows "filter (\<lambda>r. uri r = a_uri P) (posts (snd (update_posts_for_actor e now w d ua))) =
         filter (\<lambda>r. uri r = a_uri P) (posts w)"
proof -
  obtain r w' where c: "get_connection w = (r, w')" by (cases "get_connection w")
  have p: "posts w' = posts w" using get_connection_tables(2)[of w] c by simp
  show ?thesis
  proof (cases r)
    case (Inl err)
    then show ?thesis by (simp add: update_posts_for_actor_def c p)
  next
    case (Inr u)
    show ?thesis
      using f nu ni
      by (auto simp: update_posts_for_actor_def c p Inr Let_def
            fold_exec_update_other_uri
            dest!: exec_inserts_other_uri[where x = "a_uri P"]
            split: prod.splits sum.splits if_splits)
  qed
qed

lemma count_key_distinct:
  "distinct (map f xs) \<Longrightarrow> p \<in> set xs \<Longrightarrow>
   length (filter (\<lambda>q. f q = f p \<and> C q) xs) = (if C p then 1 else 0)"
proof (induction xs)
  case Nil
  then show ?case by simp
next
  case (Cons a xs)
  show ?case
  proof (cases "a = p")
    case True
    with Cons.prems have "f p \<notin> f ` set xs" by simp
    then have "\<forall>q \<in> set xs. f q \<noteq> f p" by (metis imageI)
    then have "filter (\<lambda>q. f q = f p \<and> C q) xs = []" by (auto simp: filter_empty_conv)
    with True show ?thesis by simp
  next
    case False
    with Cons.prems have "p \<in> set xs" and "f a \<noteq> f p" and "distinct (map f xs)" by auto
    with Cons.IH show ?thesis by simp
  qed
qed





subsection \<open>The claims about the merge\<close>

text \<open>
  C2 (as amended). In incremental mode (\<open>update_all = False\<close>), a fetched post of the
  deduplicated working set whose creation string compares at most equal to the date of the
  cutoff, \<open>str(now - 7 days)[0:10]\<close>, is neither inserted nor updated: whatever rows are
  tracked, the merge issues no \<open>UPDATE\<close> and queues no \<open>INSERT\<close> for its URI, and the rows of
  that URI in the table after \<open>update_posts_for_actor\<close> are the rows before.
\<close>

theorem incremental_skips_posts_up_to_cutoff_date:
  assumes "get_posts_for_actor (recursion_limit e) e now d [] []
             (if length (filter (\<lambda>p. p_did p = d) (posts w)) = 0 then True else False)
           = Inr fetched"
      and "P \<in> set (drop_duplicates_uri fetched)"
      and "a_createdAt P \<le> str_date (minus_days now 7)"
  shows "a_uri P \<notin> where_uri ` set (fst (merge_posts False (str_date (minus_days now 7)) now
                                          tracked (drop_duplicates_uri fetched)))
       \<and> a_uri P \<notin> uri ` set (snd (merge_posts False (str_date (minus_days now 7)) now
                                          tracked (drop_duplicates_uri fetched)))
       \<and> filter (\<lambda>r. uri r = a_uri P) (posts (snd (update_posts_for_actor e now w d False))) =
           filter (\<lambda>r. uri r = a_uri P) (posts w)"
proof -
  have s: "skipped False (str_date (minus_days now 7)) P"
    using assms(3) by (simp add: skipped_def)
  have d: "distinct (map a_uri (drop_duplicates_uri fetched))"
    by (rule drop_duplicates_uri_distinct)
  note nw = merge_posts_skipped_no_write[OF d assms(2) s]
  have "filter (\<lambda>r. uri r = a_uri P) (posts (snd (update_posts_for_actor e now w d False))) =
        filter (\<lambda>r. uri r = a_uri P) (posts w)"
    by (rule update_posts_for_actor_rows_kept[OF assms(1)]) (simp_all add: nw)
  with nw show ?thesis by simp
qed

theorem incremental_skips_posts_up_to_cutoff_date_witness:
  "get_posts_for_actor (recursion_limit env_with_old) env_with_old now0 ''did:abc'' [] []
      (if length (filter (\<lambda>p. p_did p = ''did:abc'') (posts w_tracked)) = 0 then True else False)
     = Inr [post_recent, post_old]
   \<and> post_old \<in> set (drop_duplicates_uri [post_recent, post_old])
   \<and> a_createdAt post_old \<le> str_date (minus_days now0 7)
   \<and> merge_posts False (str_date (minus_days now0 7)) now0 [stored_recent]
        (drop_duplicates_uri [post_recent, post_old]) = ([], [])
   \<and> filter (\<lambda>r. uri r = a_uri post_old)
        (posts (snd (update_posts_for_actor env_with_old now0 w_tracked ''did:abc'' False))) = []"
proof -
  have a: "get_posts_for_actor (recursion_limit env_with_old) env_with_old now0 ''did:abc'' [] []
      (if length (filter (\<lambda>p. p_did p = ''did:abc'') (posts w_tracked)) = 0 then True else False)
     = Inr [post_recent, post_old]"
    by (simp add: get_posts_for_actor_unfold call_endpoint_def env_with_old_def w_tracked_def
          stored_recent_def post_recent_def post_old_def)
  have b: "post_old \<in> set (drop_duplicates_uri [post_recent, post_old])"
    by (simp add: post_recent_def post_old_def)
  have c: "a_createdAt post_old \<le> str_date (minus_days now0 7)"
    by (simp add: now0_cutoff post_old_def)
  have m: "merge_posts False (str_date (minus_days now0 7)) now0 [stored_recent]
        (drop_duplicates_uri [post_recent, post_old]) = ([], [])"
    by (simp add: now0_cutoff post_recent_def post_old_def stored_recent_def)
  have e: "filter (\<lambda>r. uri r = a_uri post_old) (posts w_tracked) = []"
    by (simp add: w_tracked_def stored_recent_def post_old_def)
  show ?thesis
    using a b c m e incremental_skips_posts_up_to_cutoff_date[OF a b c, of "[stored_recent]"]
    by simp
qed




text \<open>
  In the lookup of an incremental run every row was created after the cutoff date, so a
  fetched post found there with the creation string of its stored row passes the cutoff
  check.
\<close>

lemma tracked_post_passes_cutoff:
  assumes "filter (\<lambda>t. uri t = a_uri P)
             (filter (\<lambda>p. p_did p = d \<and> createdAt p > cutoff) tbl) = t # ts"
      and "createdAt t = a_createdAt P"
  shows "\<not> a_createdAt P \<le> cutoff"
proof -
  have "t \<in> set (filter (\<lambda>t. uri t = a_uri P)
             (filter (\<lambda>p. p_did p = d \<and> createdAt p > cutoff) tbl))"
    using assms(1) by simp
  then have "createdAt t > cutoff" by simp
  with assms(2) show ?thesis by simp
qed





section \<open>Properties of the orchestrator\<close>

lemma same_tables_get_connection: "same_tables w (snd (get_connection w))"
  by (simp add: same_tables_def get_connection_tables)

lemma process_user_profile_never_raises:
  "\<exists>r. fst (process_user_profile e now w profile curr_date) = Inr r"
  by (simp add: process_user_profile_def split: prod.splits sum.splits)

lemma process_user_profile_absent:
  assumes "fst (get_connection w) = Inr ()"
      and "filter (\<lambda>u. u_did u = did profile) (users w) = []"
  shows "fst (process_user_profile e now w profile curr_date) = Inr None"
    and "same_tables w (snd (process_user_profile e now w profile curr_date))"
proof -
  obtain r w' where c: "get_connection w = (r, w')" by (cases "get_connection w")
  with assms have r: "r = Inr ()" by simp
  have t: "same_tables w w'" using same_tables_get_connection[of w] c by simp
  then have u: "users w' = users w" by (simp add: same_tables_def)
  have g: "get_user_by_did w (did profile) = (Inr None, w')"
    by (simp add: get_user_by_did_def c r u assms(2))
  show "fst (process_user_profile e now w profile curr_date) = Inr None"
    by (simp add: process_user_profile_def process_user_profile_try_def g)
  show "same_tables w (snd (process_user_profile e now w profile curr_date))"
    by (simp add: process_user_profile_def process_user_profile_try_def g t)
qed

lemma process_user_profile_skip:
  assumes "fst (get_connection w) = Inr ()"
      and "filter (\<lambda>u. u_did u = did profile) (users w) = user_data # others"
      and "u_skip_user user_data"
  shows "fst (process_user_profile e now w profile curr_date) = Inr None"
    and "same_tables w (snd (process_user_profile e now w profile curr_date))"
proof -
  obtain r w' where c: "get_connection w = (r, w')" by (cases "get_connection w")
  with assms have r: "r = Inr ()" by simp
  have t: "same_tables w w'" using same_tables_get_connection[of w] c by simp
  then have u: "users w' = users w" by (simp add: same_tables_def)
  have g: "get_user_by_did w (did profile) = (Inr (Some user_data), w')"
    by (simp add: get_user_by_did_def c r u assms(2))
  show "fst (process_user_profile e now w profile curr_date) = Inr None"
    by (simp add: process_user_profile_def process_user_profile_try_def g assms(3))
  show "same_tables w (snd (process_user_profile e now w profile curr_date))"
    by (simp add: process_user_profile_def process_user_profile_try_def g assms(3) t)
qed

lemma process_user_profile_exception:
  "fst (process_user_profile_try e now w profile curr_date) = Inl err \<Longrightarrow>
   fst (process_user_profile e now w profile curr_date) = Inr None"
  by (auto simp: process_user_profile_def split: prod.splits)

lemma run_tasks_none:
  "fst (process_user_profile e now w profile curr_date) = Inr None \<Longrightarrow>
   run_tasks e now w (profile # rest) curr_date =
     run_tasks e now (snd (process_user_profile e now w profile curr_date)) rest curr_date"
  by (auto split: prod.splits)


lemma is_snapshot_simps:
  "is_snapshot (Inl x) = False" "is_snapshot (Inr None) = False"
  "is_snapshot (Inr (Some s)) = True"
  by (simp_all add: is_snapshot_def)

lemma run_tasks_count:
  "fst (run_tasks e now w profiles curr_date) =
     int (length (filter is_snapshot (task_results e now w profiles curr_date)))"
proof (induction profiles arbitrary: w)
  case Nil
  then show ?case by simp
next
  case (Cons p rest)
  obtain r w1 where pr: "process_user_profile e now w p curr_date = (r, w1)"
    by (cases "process_user_profile e now w p curr_date")
  obtain n w2 where rt: "run_tasks e now w1 rest curr_date = (n, w2)"
    by (cases "run_tasks e now w1 rest curr_date")
  have ih: "n = int (length (filter is_snapshot (task_results e now w1 rest curr_date)))"
    using Cons[of w1] rt by simp
  show ?case
  proof (cases r)
    case (Inl x)
    then show ?thesis by (simp add: pr rt ih is_snapshot_simps)
  next
    case (Inr b)
    then show ?thesis by (cases b) (simp_all add: pr rt ih is_snapshot_simps)
  qed
qed



text \<open>
  C6. \<open>process_user_profile\<close> never raises. It returns \<open>None\<close>, leaving every table as it
  was, when the store has no record of the account and when the record's skip flag is set
  (the connection of the lookup opening); it returns \<open>None\<close> when its \<open>try\<close> block raises any
  exception. In the batch a task that returns \<open>None\<close> is not counted and the remaining tasks
  are run as they would be from the state it leaves; the processed count is the number of
  tasks that returned a snapshot.
\<close>

theorem process_user_profile_none_cases:
  "(\<exists>r. fst (process_user_profile e now w profile curr_date) = Inr r)
   \<and> (fst (get_connection w) = Inr () \<and>
      filter (\<lambda>u. u_did u = did profile) (users w) = [] \<longrightarrow>
        fst (process_user_profile e now w profile curr_date) = Inr None \<and>
        same_tables w (snd (process_user_profile e now w profile curr_date)))
   \<and> (\<forall>user_data others.
        fst (get_connection w) = Inr () \<and>
        filter (\<lambda>u. u_did u = did profile) (users w) = user_data # others \<and>
        u_skip_user user_data \<longrightarrow>
          fst (process_user_profile e now w profile curr_date) = Inr None \<and>
          same_tables w (snd (process_user_profile e now w profile curr_date)))
   \<and> (\<forall>err. fst (process_user_profile_try e now w profile curr_date) = Inl err \<longrightarrow>
          fst (process_user_profile e now w profile curr_date) = Inr None)
   \<and> (fst (process_user_profile e now w profile curr_date) = Inr None \<longrightarrow>
        run_tasks e now w (profile # rest) curr_date =
          run_tasks e now (snd (process_user_profile e now w profile curr_date)) rest curr_date)
   \<and> fst (run_tasks e now w profiles curr_date) =
        int (length (filter is_snapshot (task_results e now w profiles curr_date)))"
  using process_user_profile_never_raises[of e now w profile curr_date]
        process_user_profile_absent[of w profile e now curr_date]
        process_user_profile_skip[of w profile _ _ e now curr_date]
        process_user_profile_exception[of e now w profile curr_date]
        run_tasks_none[of e now w profile curr_date rest]
        run_tasks_count[of e now w profiles curr_date]
  by blast

subsection \<open>Evaluations of the per-account task\<close>

lemma ex_gone: "fst (get_connection w_two) = Inr () \<and>
      filter (\<lambda>u. u_did u = did profile_gone) (users w_two) = []"
  by (simp add: get_connection_def w_two_def user_abc_def user_skip_def profile_gone_def)

lemma ex_skip: "fst (get_connection w_two) = Inr () \<and>
      filter (\<lambda>u. u_did u = did profile_skip) (users w_two) = user_skip # [] \<and>
      u_skip_user user_skip"
  by (simp add: get_connection_def w_two_def user_abc_def user_skip_def profile_skip_def)

lemma ex_outage:
  "fst (process_user_profile_try env_down now0 w_outage profile_abc ''2024-01-15'') =
     Inl (Psycopg2Error ''could not connect to server'')"
  by (simp add: process_user_profile_try_def get_user_by_did_def get_connection_def w_outage_def
        user_abc_def user_skip_def profile_abc_def should_update_user_def
        update_posts_for_actor_def)

lemma ex_abc:
  "process_user_profile env_down now0 w_two profile_abc ''2024-01-15'' =
     (Inr (Some \<lparr>sd_did = ''did:abc'', sd_handle = ''abc.bsky.social'', sd_date = ''2024-01-15'',
                  sd_followers = 100, sd_following = 50, sd_posts = 5, sd_likes = 10,
                  sd_replies = 1, sd_quotes = 0, sd_reposts = 2\<rparr>),
      w_two\<lparr>snapshots := [\<lparr>s_uuid = 0, s_followers = 100, s_following = 50, s_posts = 5,
                             s_date = ''2024-01-15'', s_did = ''did:abc'', s_likes = 10,
                             s_replies = 1, s_quotes = 0, s_reposts = 2\<rparr>],
             uuid_counter := 1\<rparr>)"
  by (simp add: process_user_profile_def process_user_profile_try_def get_user_by_did_def
        get_connection_def w_two_def user_abc_def user_skip_def profile_abc_def
        should_update_user_def update_posts_for_actor_def get_posts_for_actor_unfold
        call_endpoint_def env_down_def stored_recent_def get_engagement_totals_def
        select_engagement_def sql_sum_def or_zero_def upsert_snapshot_def
        insert_snapshot_on_conflict_def same_key_def)

lemma ex_skip_eval:
  "process_user_profile env_down now0 w_two profile_skip ''2024-01-15'' = (Inr None, w_two)"
  by (simp add: process_user_profile_def process_user_profile_try_def get_user_by_did_def
        get_connection_def w_two_def user_abc_def user_skip_def profile_skip_def)

lemma ex_gone_eval:
  "process_user_profile env_down now0 w_two profile_gone ''2024-01-15'' = (Inr None, w_two)"
  by (simp add: process_user_profile_def process_user_profile_try_def get_user_by_did_def
        get_connection_def w_two_def user_abc_def user_skip_def profile_gone_def)

theorem process_user_profile_none_cases_witness:
  "fst (process_user_profile env_down now0 w_two profile_gone ''2024-01-15'') = Inr None
   \<and> fst (process_user_profile env_down now0 w_two profile_skip ''2024-01-15'') = Inr None
   \<and> same_tables w_two (snd (process_user_profile env_down now0 w_two profile_skip ''2024-01-15''))
   \<and> fst (process_user_profile_try env_down now0 w_outage profile_abc ''2024-01-15'') =
       Inl (Psycopg2Error ''could not connect to server'')
   \<and> fst (process_user_profile env_down now0 w_outage profile_abc ''2024-01-15'') = Inr None
   \<and> fst (run_tasks env_down now0 w_two [profile_skip, profile_gone, profile_abc] ''2024-01-15'') = 1"
proof -
  note t = process_user_profile_none_cases
  have g: "fst (process_user_profile env_down now0 w_two profile_gone ''2024-01-15'') = Inr None"
    using ex_gone t[of env_down now0 w_two profile_gone "''2024-01-15''"] by blast
  have s: "fst (process_user_profile env_down now0 w_two profile_skip ''2024-01-15'') = Inr None
      \<and> same_tables w_two (snd (process_user_profile env_down now0 w_two profile_skip ''2024-01-15''))"
    using ex_skip t[of env_down now0 w_two profile_skip "''2024-01-15''"] by blast
  have o: "fst (process_user_profile env_down now0 w_outage profile_abc ''2024-01-15'') = Inr None"
    using ex_outage t[of env_down now0 w_outage profile_abc "''2024-01-15''"] by blast
  have r1: "run_tasks env_down now0 w_two [profile_skip, profile_gone, profile_abc] ''2024-01-15''
      = run_tasks env_down now0 w_two [profile_gone, profile_abc] ''2024-01-15''"
    using s t[of env_down now0 w_two profile_skip "''2024-01-15''" "[profile_gone, profile_abc]"]
    by (simp add: ex_skip_eval)
  have r2: "run_tasks env_down now0 w_two [profile_gone, profile_abc] ''2024-01-15''
      = run_tasks env_down now0 w_two [profile_abc] ''2024-01-15''"
    using g t[of env_down now0 w_two profile_gone "''2024-01-15''" "[profile_abc]"]
    by (simp add: ex_gone_eval)
  have r3: "fst (run_tasks env_down now0 w_two [profile_abc] ''2024-01-15'') = 1"
    by (simp add: ex_abc)
  show ?thesis using g s ex_outage o r1 r2 r3 by simp
qed

subsection \<open>The run with a store whose connections all open\<close>


lemma get_connection_logs:
  "snapshot_logs (snd (get_connection w)) = snapshot_logs w"
  by (rule get_connection_tables)






lemma fetch_chunks_failed_chunk:
  "get_profiles e (map fst chunk) = Inl err \<Longrightarrow> fetch_chunks e (chunk # rest) = fetch_chunks e rest"
  by simp















lemma get_connection_snapshots:
  "snapshots (snd (get_connection w)) = snapshots w"
  by (rule get_connection_tables)

lemma upsert_snapshot_snapshots:
  "snapshots (snd (upsert_snapshot w s)) = snapshots w \<or>
   (fst (upsert_snapshot w s) = Inr () \<and>
    (\<exists>u. snapshots (snd (upsert_snapshot w s)) = insert_snapshot_on_conflict (snapshots w) u s))"
proof -
  obtain r w' where c: "get_connection w = (r, w')" by (cases "get_connection w")
  have p: "snapshots w' = snapshots w" using get_connection_snapshots[of w] c by simp
  show ?thesis by (cases r) (auto simp: upsert_snapshot_def c p)
qed

lemma upsert_snapshot_success:
  "fst (upsert_snapshot w s) = Inr () \<Longrightarrow>
   \<exists>u. snapshots (snd (upsert_snapshot w s)) = insert_snapshot_on_conflict (snapshots w) u s"
proof -
  assume a: "fst (upsert_snapshot w s) = Inr ()"
  obtain r w' where c: "get_connection w = (r, w')" by (cases "get_connection w")
  have p: "snapshots w' = snapshots w" using get_connection_snapshots[of w] c by simp
  show ?thesis using a by (cases r) (auto simp: upsert_snapshot_def c p)
qed

lemma upsert_snapshot_unique:
  "snapshots_unique w \<Longrightarrow> snapshots_unique (snd (upsert_snapshot w s))"
  using upsert_snapshot_snapshots[of w s]
  by (auto simp: snapshots_unique_def distinct_insert_snapshot)

lemma update_user_profile_snapshots:
  "snapshots (snd (update_user_profile w profile)) = snapshots w"
proof -
  obtain r w' where c: "get_connection w = (r, w')" by (cases "get_connection w")
  have p: "snapshots w' = snapshots w" using get_connection_snapshots[of w] c by simp
  show ?thesis by (cases r) (simp_all add: update_user_profile_def c p)
qed

lemma get_user_by_did_snapshots:
  "snapshots (snd (get_user_by_did w d)) = snapshots w"
proof -
  obtain r w' where c: "get_connection w = (r, w')" by (cases "get_connection w")
  have p: "snapshots w' = snapshots w" using get_connection_snapshots[of w] c by simp
  show ?thesis by (cases r) (simp_all add: get_user_by_did_def c p)
qed

lemma get_engagement_totals_snapshots:
  "snapshots (snd (get_engagement_totals w d)) = snapshots w"
proof -
  obtain r w' where c: "get_connection w = (r, w')" by (cases "get_connection w")
  have p: "snapshots w' = snapshots w" using get_connection_snapshots[of w] c by simp
  show ?thesis
    by (cases r) (simp_all add: get_engagement_totals_def c p split: option.splits prod.splits)
qed

lemma update_posts_for_actor_snapshots:
  "snapshots (snd (update_posts_for_actor e now w d ua)) = snapshots w"
proof -
  obtain r w' where c: "get_connection w = (r, w')" by (cases "get_connection w")
  have p: "snapshots w' = snapshots w" using get_connection_snapshots[of w] c by simp
  show ?thesis
    by (cases r)
       (auto simp: update_posts_for_actor_def c p Let_def split: prod.splits sum.splits)
qed

lemma snapshots_kept:
  "get_user_by_did w d = (r1, w1) \<Longrightarrow> snapshots w1 = snapshots w"
  "update_user_profile w profile = (r2, w2) \<Longrightarrow> snapshots w2 = snapshots w"
  "update_posts_for_actor e now w d ua = (r3, w3) \<Longrightarrow> snapshots w3 = snapshots w"
  "get_engagement_totals w d = (r4, w4) \<Longrightarrow> snapshots w4 = snapshots w"
  using get_user_by_did_snapshots[of w d] update_user_profile_snapshots[of w profile]
    update_posts_for_actor_snapshots[of e now w d ua] get_engagement_totals_snapshots[of w d]
  by simp_all

lemma upsert_snapshot_cases:
  "upsert_snapshot w s = (Inl err, w') \<Longrightarrow> snapshots w' = snapshots w"
  "upsert_snapshot w s = (Inr x, w') \<Longrightarrow>
     \<exists>u. snapshots w' = insert_snapshot_on_conflict (snapshots w) u s"
proof -
  obtain r w0 where c: "get_connection w = (r, w0)" by (cases "get_connection w")
  have p: "snapshots w0 = snapshots w" using get_connection_snapshots[of w] c by simp
  show "upsert_snapshot w s = (Inl err, w') \<Longrightarrow> snapshots w' = snapshots w"
    using p by (cases r) (auto simp: upsert_snapshot_def c)
  show "upsert_snapshot w s = (Inr x, w') \<Longrightarrow>
     \<exists>u. snapshots w' = insert_snapshot_on_conflict (snapshots w) u s"
    using p by (cases r) (auto simp: upsert_snapshot_def c)
qed

lemma process_user_profile_try_snapshots:
  "(fst (process_user_profile_try e now w profile curr_date) = Inr (Some s) \<longrightarrow>
      (\<exists>u. snapshots (snd (process_user_profile_try e now w profile curr_date)) =
            insert_snapshot_on_conflict (snapshots w) u s) \<and>
      sd_did s = did profile \<and> sd_date s = curr_date \<and>
      sd_followers s = followers_count profile \<and> sd_following s = following_count profile \<and>
      sd_posts s = posts_count profile)
   \<and> ((\<forall>s'. fst (process_user_profile_try e now w profile curr_date) \<noteq> Inr (Some s')) \<longrightarrow>
      snapshots (snd (process_user_profile_try e now w profile curr_date)) = snapshots w)"
  unfolding process_user_profile_try_def Let_def
  by (auto split: prod.splits sum.splits option.splits if_splits
           dest!: snapshots_kept upsert_snapshot_cases)

lemma process_user_profile_eq:
  "fst (process_user_profile e now w profile curr_date) = Inr (Some s) \<longleftrightarrow>
     fst (process_user_profile_try e now w profile curr_date) = Inr (Some s)"
  "snd (process_user_profile e now w profile curr_date) =
     snd (process_user_profile_try e now w profile curr_date)"
  by (auto simp: process_user_profile_def split: prod.splits sum.splits)

lemma process_user_profile_snapshot:
  assumes "fst (process_user_profile e now w profile curr_date) = Inr (Some s)"
  shows "\<exists>u. snapshots (snd (process_user_profile e now w profile curr_date)) =
            insert_snapshot_on_conflict (snapshots w) u s"
    and "sd_did s = did profile" and "sd_date s = curr_date"
    and "sd_followers s = followers_count profile"
    and "sd_following s = following_count profile" and "sd_posts s = posts_count profile"
  using assms process_user_profile_try_snapshots[of e now w profile curr_date s]
  by (simp_all add: process_user_profile_eq)

lemma process_user_profile_no_snapshot:
  assumes "\<forall>s. fst (process_user_profile e now w profile curr_date) \<noteq> Inr (Some s)"
  shows "snapshots (snd (process_user_profile e now w profile curr_date)) = snapshots w"
  using assms process_user_profile_try_snapshots[of e now w profile curr_date]
  by (simp add: process_user_profile_eq)

lemma process_user_profile_unique:
  assumes "snapshots_unique w"
  shows "snapshots_unique (snd (process_user_profile e now w profile curr_date))"
proof (cases "\<exists>s. fst (process_user_profile e now w profile curr_date) = Inr (Some s)")
  case True
  then obtain s where "fst (process_user_profile e now w profile curr_date) = Inr (Some s)"
    by blast
  from process_user_profile_snapshot(1)[OF this] assms show ?thesis
    by (auto simp: snapshots_unique_def distinct_insert_snapshot)
next
  case False
  then have "snapshots (snd (process_user_profile e now w profile curr_date)) = snapshots w"
    by (intro process_user_profile_no_snapshot) simp
  with assms show ?thesis by (simp add: snapshots_unique_def)
qed

lemma run_tasks_unique:
  "snapshots_unique w \<Longrightarrow> snapshots_unique (snd (run_tasks e now w profiles curr_date))"
proof (induction profiles arbitrary: w)
  case Nil
  then show ?case by simp
next
  case (Cons p rest)
  obtain r w1 where pr: "process_user_profile e now w p curr_date = (r, w1)"
    by (cases "process_user_profile e now w p curr_date")
  have "snapshots_unique w1"
    using process_user_profile_unique[OF Cons.prems, of e now p curr_date] pr by simp
  then have "snapshots_unique (snd (run_tasks e now w1 rest curr_date))"
    by (rule Cons.IH)
  then show ?case
    by (auto simp: pr split: sum.splits option.splits prod.splits)
qed

lemma create_snapshots_batch_unique:
  assumes "snapshots_unique w"
  shows "snapshots_unique (snd (create_snapshots_batch e now w use_simple_query))"
proof -
  obtain r w0 where c: "get_connection w = (r, w0)" by (cases "get_connection w")
  have u0: "snapshots_unique w0"
    using get_connection_snapshots[of w] c assms by (simp add: snapshots_unique_def)
  obtain ru w1 where g: "get_active_users now w use_simple_query = (ru, w1)"
    by (cases "get_active_users now w use_simple_query")
  have w1: "w1 = w0" using g c by (cases r) (auto simp: get_active_users_def)
  have rt: "\<And>ps n w2. run_tasks e now w0 ps (str_date now) = (n, w2) \<Longrightarrow> snapshots_unique w2"
    using run_tasks_unique[OF u0, of e now _ "str_date now"] by (metis snd_conv)
  show ?thesis
    using u0
    by (auto simp: create_snapshots_batch_def g w1 Let_def dest: rt split: sum.splits prod.splits)
qed

lemma run_snapshot_collection_unique:
  assumes "snapshots_unique w"
  shows "snapshots_unique (snd (run_snapshot_collection e now start_time end_time w
                                  use_simple_query))"
proof -
  have l1: "snapshots_unique (snd (create_snapshot_log now w))"
    using assms get_connection_snapshots[of w]
    by (auto simp: create_snapshot_log_def snapshots_unique_def Let_def split: prod.splits sum.splits)
  have l3: "\<And>w' i d n. snapshots_unique w' \<Longrightarrow> snapshots_unique (snd (update_snapshot_log now w' i d n))"
  proof -
    fix w' :: world and i d n
    assume "snapshots_unique w'"
    then show "snapshots_unique (snd (update_snapshot_log now w' i d n))"
      using get_connection_snapshots[of w']
      by (auto simp: update_snapshot_log_def snapshots_unique_def split: prod.splits sum.splits)
  qed
  obtain r1 w1 where c: "create_snapshot_log now w = (r1, w1)"
    by (cases "create_snapshot_log now w")
  have u1: "snapshots_unique w1" using l1 c by simp
  obtain r2 w2 where b: "create_snapshots_batch e now w1 use_simple_query = (r2, w2)"
    by (cases "create_snapshots_batch e now w1 use_simple_query")
  have u2: "snapshots_unique w2"
    using create_snapshots_batch_unique[OF u1, of e now use_simple_query] b by simp
  show ?thesis
    using u1 u2 l3[OF u2]
    by (auto simp: run_snapshot_collection_def c b Let_def split: sum.splits)
qed

lemma run_all_unique:
  "snapshots_unique w \<Longrightarrow> snapshots_unique (run_all runs w)"
proof (induction runs arbitrary: w)
  case Nil
  then show ?case by simp
next
  case (Cons r runs)
  obtain e now st en q where r: "r = (e, now, st, en, q)" by (cases r)
  show ?case
    unfolding r using Cons.IH[OF run_snapshot_collection_unique[OF Cons.prems]] by simp
qed

lemma task_twice_same_snapshot:
  assumes "fst (process_user_profile e now w profile curr_date) = Inr (Some s)"
      and "fst (process_user_profile e' now' (snd (process_user_profile e now w profile curr_date))
                  profile' curr_date') = Inr (Some s)"
  shows "snapshots (snd (process_user_profile e' now'
                           (snd (process_user_profile e now w profile curr_date))
                           profile' curr_date')) =
         snapshots (snd (process_user_profile e now w profile curr_date))"
proof -
  obtain u where 1: "snapshots (snd (process_user_profile e now w profile curr_date)) =
            insert_snapshot_on_conflict (snapshots w) u s"
    using process_user_profile_snapshot(1)[OF assms(1)] by blast
  obtain u' where 2: "snapshots (snd (process_user_profile e' now'
                           (snd (process_user_profile e now w profile curr_date))
                           profile' curr_date')) =
            insert_snapshot_on_conflict
              (snapshots (snd (process_user_profile e now w profile curr_date))) u' s"
    using process_user_profile_snapshot(1)[OF assms(2)] by blast
  show ?thesis unfolding 2 unfolding 1 by (rule insert_snapshot_idem)
qed

lemma insert_snapshot_one_row:
  assumes "distinct (map snapshot_key tbl)"
  shows "length (filter (same_key s) (insert_snapshot_on_conflict tbl u s)) = 1"
proof -
  let ?t = "insert_snapshot_on_conflict tbl u s"
  obtain r where r: "r \<in> set ?t" "same_key s r"
    using insert_snapshot_has_key[of tbl u s] by blast
  have d: "distinct (map snapshot_key ?t)"
    using assms by (rule distinct_insert_snapshot)
  have "same_key s = (\<lambda>q. snapshot_key q = snapshot_key r \<and> True)"
    using r(2) by (auto simp: same_key_iff fun_eq_iff)
  then show ?thesis
    using count_key_distinct[OF d r(1), of "\<lambda>_. True"] by simp
qed

text \<open>
  C1. If the snapshots table has at most one row per (account, date), so it has after an
  upsert, after a run and after any sequence of runs. An upsert that succeeds leaves exactly
  one row with the key of its snapshot, carrying the seven counters of the snapshot (they
  replace the stored ones); it adds a row only when the key was absent; and a second upsert
  of the same snapshot leaves the table as the first left it. A task that returns a snapshot
  which the preceding task already returned leaves the snapshots table unchanged.
\<close>

theorem snapshot_upsert_one_row_per_key_idempotent:
  assumes "distinct (map snapshot_key (snapshots w))"
  shows
    "distinct (map snapshot_key (snapshots (snd (upsert_snapshot w s))))
     \<and> distinct (map snapshot_key
           (snapshots (snd (run_snapshot_collection e now start_time end_time w
                              use_simple_query))))
     \<and> distinct (map snapshot_key (snapshots (run_all runs w)))
     \<and> (fst (upsert_snapshot w s) = Inr () \<longrightarrow>
          length (filter (same_key s) (snapshots (snd (upsert_snapshot w s)))) = 1
          \<and> (\<forall>r \<in> set (snapshots (snd (upsert_snapshot w s))). same_key s r \<longrightarrow>
                s_followers r = sd_followers s \<and> s_following r = sd_following s \<and>
                s_posts r = sd_posts s \<and> s_likes r = sd_likes s \<and>
                s_replies r = sd_replies s \<and> s_quotes r = sd_quotes s \<and>
                s_reposts r = sd_reposts s)
          \<and> length (snapshots (snd (upsert_snapshot w s))) =
               (if \<exists>r \<in> set (snapshots w). same_key s r then length (snapshots w)
                else Suc (length (snapshots w)))
          \<and> snapshots (snd (upsert_snapshot (snd (upsert_snapshot w s)) s)) =
               snapshots (snd (upsert_snapshot w s)))
     \<and> (fst (process_user_profile e now w profile curr_date) = Inr (Some s) \<and>
        fst (process_user_profile e' now' (snd (process_user_profile e now w profile curr_date))
               profile' curr_date') = Inr (Some s) \<longrightarrow>
          snapshots (snd (process_user_profile e' now'
                            (snd (process_user_profile e now w profile curr_date))
                            profile' curr_date')) =
          snapshots (snd (process_user_profile e now w profile curr_date)))"
proof -
  have u: "snapshots_unique w" using assms by (simp add: snapshots_unique_def)
  have a: "distinct (map snapshot_key (snapshots (snd (upsert_snapshot w s))))"
    using upsert_snapshot_unique[OF u, of s] by (simp add: snapshots_unique_def)
  have b: "distinct (map snapshot_key
           (snapshots (snd (run_snapshot_collection e now start_time end_time w
                              use_simple_query))))"
    using run_snapshot_collection_unique[OF u, of e now start_time end_time use_simple_query]
    by (simp add: snapshots_unique_def)
  have c: "distinct (map snapshot_key (snapshots (run_all runs w)))"
    using run_all_unique[OF u, of runs] by (simp add: snapshots_unique_def)
  have d: "length (filter (same_key s) (snapshots (snd (upsert_snapshot w s)))) = 1
          \<and> (\<forall>r \<in> set (snapshots (snd (upsert_snapshot w s))). same_key s r \<longrightarrow>
                s_followers r = sd_followers s \<and> s_following r = sd_following s \<and>
                s_posts r = sd_posts s \<and> s_likes r = sd_likes s \<and>
                s_replies r = sd_replies s \<and> s_quotes r = sd_quotes s \<and>
                s_reposts r = sd_reposts s)
          \<and> length (snapshots (snd (upsert_snapshot w s))) =
               (if \<exists>r \<in> set (snapshots w). same_key s r then length (snapshots w)
                else Suc (length (snapshots w)))
          \<and> snapshots (snd (upsert_snapshot (snd (upsert_snapshot w s)) s)) =
               snapshots (snd (upsert_snapshot w s))"
    if ok: "fst (upsert_snapshot w s) = Inr ()"
  proof -
    obtain uu where 1: "snapshots (snd (upsert_snapshot w s)) =
        insert_snapshot_on_conflict (snapshots w) uu s"
      using upsert_snapshot_success[OF ok] by blast
    have 2: "snapshots (snd (upsert_snapshot (snd (upsert_snapshot w s)) s)) =
               snapshots (snd (upsert_snapshot w s))"
      using upsert_snapshot_snapshots[of "snd (upsert_snapshot w s)" s]
      by (auto simp: 1 insert_snapshot_idem)
    show ?thesis
      unfolding 2 unfolding 1
      using insert_snapshot_one_row[OF assms, of s uu]
        insert_snapshot_overwrites[of _ "snapshots w" uu s]
        insert_snapshot_length[of "snapshots w" uu s]
      by auto
  qed
  have t: "fst (process_user_profile e now w profile curr_date) = Inr (Some s) \<and>
        fst (process_user_profile e' now' (snd (process_user_profile e now w profile curr_date))
               profile' curr_date') = Inr (Some s) \<longrightarrow>
          snapshots (snd (process_user_profile e' now'
                            (snd (process_user_profile e now w profile curr_date))
                            profile' curr_date')) =
          snapshots (snd (process_user_profile e now w profile curr_date))"
    using task_twice_same_snapshot by blast
  from a b c d t show ?thesis by blast
qed

theorem snapshot_upsert_one_row_per_key_idempotent_witness:
  "distinct (map snapshot_key (snapshots w_snap))
   \<and> fst (upsert_snapshot w_snap snap_abc) = Inr ()
   \<and> snapshots (snd (upsert_snapshot w_snap snap_abc)) =
       [\<lparr>s_uuid = 7, s_followers = 100, s_following = 50, s_posts = 5,
         s_date = ''2024-01-15'', s_did = ''did:abc'', s_likes = 15, s_replies = 1,
         s_quotes = 0, s_reposts = 2\<rparr>]
   \<and> snapshots (snd (upsert_snapshot (snd (upsert_snapshot w_snap snap_abc)) snap_abc)) =
       [\<lparr>s_uuid = 7, s_followers = 100, s_following = 50, s_posts = 5,
         s_date = ''2024-01-15'', s_did = ''did:abc'', s_likes = 15, s_replies = 1,
         s_quotes = 0, s_reposts = 2\<rparr>]"
proof -
  have h: "distinct (map snapshot_key (snapshots w_snap))"
    by (simp add: w_snap_def)
  have ok: "fst (upsert_snapshot w_snap snap_abc) = Inr ()"
    by (simp add: upsert_snapshot_def get_connection_def w_snap_def)
  have v: "snapshots (snd (upsert_snapshot w_snap snap_abc)) =
       [\<lparr>s_uuid = 7, s_followers = 100, s_following = 50, s_posts = 5,
         s_date = ''2024-01-15'', s_did = ''did:abc'', s_likes = 15, s_replies = 1,
         s_quotes = 0, s_reposts = 2\<rparr>]"
    by (simp add: upsert_snapshot_def get_connection_def w_snap_def snap_abc_def
          insert_snapshot_on_conflict_def same_key_def)
  have i: "snapshots (snd (upsert_snapshot (snd (upsert_snapshot w_snap snap_abc)) snap_abc)) =
               snapshots (snd (upsert_snapshot w_snap snap_abc))"
    using ok snapshot_upsert_one_row_per_key_idempotent[OF h, of snap_abc] by blast
  show ?thesis using h ok v i by simp
qed

end
